theory Spec2Isabelle
  imports Complex_Main "HOL-Library.Stream"
begin

section \<open>Python values, errors and tensor primitives\<close>

text \<open>
  The module \<^verbatim>\<open>captioning/models/transformer_model.py\<close> assembles the decoder input of
  four captioning model variants. Its control flow is embedded here function by function.
  Every exception the Python can raise is a value of \<open>error\<close>; a function that can raise
  returns \<open>error + 'a\<close> with \<open>Inl\<close> for the exception.
\<close>

datatype error =
    KeyError string
  | IndexError
  | AssertionError
  | RuntimeError

text \<open>Sequencing of two steps, the second of which runs only when the first did not raise.\<close>

definition and_then :: "error + 'a \<Rightarrow> ('a \<Rightarrow> error + 'b) \<Rightarrow> error + 'b" where
  "and_then m f = (case m of Inl e \<Rightarrow> Inl e | Inr x \<Rightarrow> f x)"

text \<open>
  \<^verbatim>\<open>d["k"]\<close> on a dictionary whose key \<open>k\<close> holds \<open>v\<close> (\<open>Some v\<close>) or is absent
  (\<open>None\<close>): an absent key raises \<^verbatim>\<open>KeyError\<close>.
\<close>

definition getitem :: "string \<Rightarrow> 'a option \<Rightarrow> error + 'a" where
  "getitem k slot = (case slot of None \<Rightarrow> Inl (KeyError k) | Some v \<Rightarrow> Inr v)"

text \<open>
  \<^verbatim>\<open>x[i]\<close> along the first dimension of a tensor, for a Python integer \<open>i\<close>:
  a negative index counts from the end, an index outside \<open>-n .. n-1\<close> raises.
\<close>

definition py_index :: "'a list \<Rightarrow> int \<Rightarrow> error + 'a" where
  "py_index xs i =
     (if 0 \<le> i \<and> i < int (length xs) then Inr (xs ! nat i)
      else if i < 0 \<and> - int (length xs) \<le> i then Inr (xs ! nat (int (length xs) + i))
      else Inl IndexError)"

text \<open>
  The slice \<^verbatim>\<open>row[:k]\<close>: the first \<open>k\<close> entries for \<open>k \<ge> 0\<close>, all but the last \<open>-k\<close>
  for \<open>k < 0\<close>; never an error. \<^verbatim>\<open>x[:, :k]\<close> applies it to every row of a 2-D tensor.
\<close>

definition slice_to :: "int \<Rightarrow> 'a list \<Rightarrow> 'a list" where
  "slice_to k xs = (if 0 \<le> k then take (nat k) xs else take (length xs - nat (- k)) xs)"

definition cols_to :: "int \<Rightarrow> 'a list list \<Rightarrow> 'a list list" where
  "cols_to k x = map (slice_to k) x"

text \<open>
  \<^verbatim>\<open>torch.cat((a, b), dim=-1)\<close> on 2-D tensors, given as lists of rows: the row counts must
  agree, otherwise torch raises \<^verbatim>\<open>RuntimeError\<close>.
\<close>

definition torch_cat :: "'a list list \<Rightarrow> 'a list list \<Rightarrow> error + 'a list list" where
  "torch_cat a b =
     (if length a = length b then Inr (map2 (\<lambda>r s. r @ s) a b) else Inl RuntimeError)"

text \<open>
  \<^verbatim>\<open>torch.tensor([idx,] * n).unsqueeze(1).long()\<close>: a column of \<open>n\<close> copies of \<open>idx\<close>;
  a Python list multiplied by a non-positive integer is empty.
\<close>

definition start_column :: "int \<Rightarrow> int \<Rightarrow> int list list" where
  "start_column idx n = replicate (nat n) [idx]"

text \<open>\<^verbatim>\<open>(word == pad_idx)\<close>, elementwise on a 2-D tensor (the move to a device changes no value).\<close>

definition eq_mask :: "int list list \<Rightarrow> int \<Rightarrow> bool list list" where
  "eq_mask word pad = map (map (\<lambda>w. w = pad)) word"

text \<open>
  Modelled from the spec: \<^verbatim>\<open>repeat_tensor\<close> of \<^verbatim>\<open>captioning.models.utils\<close> is imported
  by the module and is not among its sources. The spec's tensor replication utility
  returns, for one sample's tensor and a beam width \<open>B\<close>, the tensor with a new leading
  dimension of size \<open>B\<close> whose slices all equal the sample, and fails on a non-positive
  beam width.
\<close>

definition repeat_tensor :: "'a \<Rightarrow> int \<Rightarrow> error + 'a list" where
  "repeat_tensor x n = (if n \<le> 0 then Inl RuntimeError else Inr (replicate (nat n) x))"

section \<open>Dictionaries of the generation protocol\<close>

text \<open>
  The dictionaries are used as structures with fixed string keys. Each is a record with
  one optional slot per key the module touches: \<open>None\<close> is an absent key. Integer tensors
  are lists of rows of \<open>int\<close>. The entries of a floating-point tensor are of the type \<open>'f\<close>,
  about which nothing is assumed: float32 arithmetic is not represented, and the module
  itself only moves such tensors, except in the label encoder. A field is named after its
  key, prefixed by the dictionary's role.
\<close>

record 'f input_dict =
  in_caps :: "int list list option"
  in_attn_embs :: "'f list list list option"
  in_attn_emb_lens :: "int list option"
  in_attn_emb_mask :: "bool list list option"
  in_t :: "int option"
  in_mode :: "string option"
  in_ss_ratio :: "real option"
  in_sample_idx :: "int option"
  in_beam_size :: "int option"
  in_events :: "'f list list option"
  in_keywords :: "'f list list option"

text \<open>
  The running output of step-wise decoding (\<^verbatim>\<open>output\<close>) and the per-sample beam state
  (\<^verbatim>\<open>output_i\<close>): \<open>seqs\<close> is written by the external driver, the other slots are the
  tensors cached by the first beam-search step.
\<close>

record 'f output_dict =
  out_seqs :: "int list list option"
  out_attn_embs :: "'f list list list option"
  out_attn_emb_lens :: "int list option"
  out_attn_emb_mask :: "bool list list option"
  out_events :: "'f list list option"
  out_keywords :: "'f list list option"

record 'f decoder_input =
  dec_word :: "int list list option"
  dec_attn_embs :: "'f list list list option"
  dec_attn_emb_lens :: "int list option"
  dec_attn_emb_mask :: "bool list list option"
  dec_caps_padding_mask :: "bool list list option"
  dec_events :: "'f list list option"
  dec_keywords :: "'f list list option"

definition empty_decoder_input :: "'f decoder_input" where
  "empty_decoder_input =
     \<lparr>dec_word = None, dec_attn_embs = None, dec_attn_emb_lens = None,
      dec_attn_emb_mask = None, dec_caps_padding_mask = None, dec_events = None,
      dec_keywords = None\<rparr>"

section \<open>Model objects and their construction\<close>

text \<open>
  The classes of \<^verbatim>\<open>captioning.models.encoder\<close> and \<^verbatim>\<open>captioning.models.decoder\<close> that the
  module names. An object is represented by the family \<^verbatim>\<open>isinstance\<close> sorts it into; any
  class the module does not name is \<open>OtherEncoder\<close> or \<open>OtherDecoder\<close>.
\<close>

datatype encoder_class = M2TransformerEncoder | OtherEncoder

datatype decoder_class =
    TransformerDecoder
  | M2TransformerDecoder
  | EventTransformerDecoder
  | KeywordProbTransformerDecoder
  | OtherDecoder

text \<open>
  The value of the attribute \<^verbatim>\<open>compatible_decoders\<close>. In Python \<^verbatim>\<open>(C,)\<close> is a tuple with
  one element and \<^verbatim>\<open>(C)\<close> is the class \<open>C\<close> itself; \<^verbatim>\<open>isinstance\<close> accepts both.
\<close>

datatype compat = Class decoder_class | Tuple "decoder_class list"

fun isinstance :: "decoder_class \<Rightarrow> compat \<Rightarrow> bool" where
  "isinstance c (Class d) = (c = d)"
| "isinstance c (Tuple ds) = (c \<in> set ds)"

definition is_tuple :: "compat \<Rightarrow> bool" where
  "is_tuple c = (case c of Class d \<Rightarrow> False | Tuple ds \<Rightarrow> True)"

text \<open>
  A decoder module: its class, its embedding width and its forward function, which is a
  black box that may raise.
\<close>

record ('f, 'o) decoder_module =
  dec_class :: decoder_class
  emb_dim :: nat
  forward :: "'f decoder_input \<Rightarrow> error + 'o"

text \<open>The attributes that the base class \<^verbatim>\<open>CaptionModel\<close> receives from the caller.\<close>

record kwargs =
  kw_pad_idx :: int
  kw_start_idx :: int
  kw_train_forward_keys :: "string list"
  kw_inference_forward_keys :: "string list"

record ('f, 'o) caption_model =
  encoder :: encoder_class
  decoder :: "('f, 'o) decoder_module"
  compatible_decoders :: compat
  pad_idx :: int
  start_idx :: int
  train_forward_keys :: "string list"
  inference_forward_keys :: "string list"

text \<open>\<^verbatim>\<open>EventEncoder\<close>: the learned table \<^verbatim>\<open>label_embedding\<close>, one row per label class.\<close>

record 'f EventEncoder =
  label_embedding :: "'f list list"

record ('f, 'o) event_model = "('f, 'o) caption_model" +
  label_encoder :: "'f EventEncoder"

text \<open>
  Modelled from the spec: \<^verbatim>\<open>CaptionModel.__init__\<close> of \<^verbatim>\<open>captioning.models.base_model\<close> is the
  base constructor every variant calls and is not among the sources. By the spec a
  variant's decoder must belong to its declared compatible set, and a decoder outside of
  it is a construction-time error. The attributes the module reads and the base class
  owns (\<^verbatim>\<open>pad_idx\<close>, \<^verbatim>\<open>start_idx\<close>, the forward key lists) are taken from the caller's
  \<open>kwargs\<close>. The first argument is the attribute \<^verbatim>\<open>compatible_decoders\<close> as the subclass
  constructor has left it.
\<close>

definition CaptionModel_init ::
  "compat \<Rightarrow> encoder_class \<Rightarrow> ('f, 'o) decoder_module \<Rightarrow> kwargs \<Rightarrow> error + ('f, 'o) caption_model" where
  "CaptionModel_init cd enc dec kw =
     (if isinstance (dec_class dec) cd
      then Inr \<lparr>encoder = enc, decoder = dec, compatible_decoders = cd,
                pad_idx = kw_pad_idx kw, start_idx = kw_start_idx kw,
                train_forward_keys = kw_train_forward_keys kw,
                inference_forward_keys = kw_inference_forward_keys kw\<rparr>
      else Inl AssertionError)"

text \<open>
  \<^verbatim>\<open>if not hasattr(self, "compatible_decoders"): self.compatible_decoders = default\<close>.
  The attribute on entry is \<open>None\<close> when the object does not have it yet.
\<close>

definition default_compat :: "compat option \<Rightarrow> compat \<Rightarrow> compat" where
  "default_compat attr dflt = (case attr of None \<Rightarrow> dflt | Some c \<Rightarrow> c)"

text \<open>\<^verbatim>\<open>TransformerModel.__init__\<close> (lines 13-18); the default is written \<^verbatim>\<open>(TransformerDecoder,)\<close>.\<close>

definition TransformerModel_init ::
  "compat option \<Rightarrow> encoder_class \<Rightarrow> ('f, 'o) decoder_module \<Rightarrow> kwargs \<Rightarrow> error + ('f, 'o) caption_model" where
  "TransformerModel_init attr enc dec kw =
     CaptionModel_init (default_compat attr (Tuple [TransformerDecoder])) enc dec kw"

text \<open>\<^verbatim>\<open>M2TransformerModel.check_encoder_compatibility\<close> (lines 99-101): an \<^verbatim>\<open>assert isinstance\<close>.\<close>

definition check_encoder_compatibility :: "('f, 'o, 'z) caption_model_scheme \<Rightarrow> error + unit" where
  "check_encoder_compatibility self =
     (if encoder self = M2TransformerEncoder then Inr () else Inl AssertionError)"

text \<open>
  \<^verbatim>\<open>M2TransformerModel.__init__\<close> (lines 91-97); the default is written
  \<^verbatim>\<open>(M2TransformerDecoder)\<close>, without a comma. The encoder check runs after the base
  constructor.
\<close>

definition M2TransformerModel_init ::
  "compat option \<Rightarrow> encoder_class \<Rightarrow> ('f, 'o) decoder_module \<Rightarrow> kwargs \<Rightarrow> error + ('f, 'o) caption_model" where
  "M2TransformerModel_init attr enc dec kw =
     and_then (CaptionModel_init (default_compat attr (Class M2TransformerDecoder)) enc dec kw)
       (\<lambda>self. and_then (check_encoder_compatibility self) (\<lambda>u. Inr self))"

text \<open>
  \<^verbatim>\<open>EventEncoder.__init__\<close> (lines 170-173): the table is drawn by \<^verbatim>\<open>torch.randn\<close>, here the
  sampler \<open>randn\<close> applied to the shape.
\<close>

definition EventEncoder_init :: "(nat \<Rightarrow> nat \<Rightarrow> 'f list list) \<Rightarrow> nat \<Rightarrow> nat \<Rightarrow> 'f EventEncoder" where
  "EventEncoder_init randn e vocab_size = \<lparr>label_embedding = randn vocab_size e\<rparr>"

text \<open>
  \<^verbatim>\<open>EventCondTransformerModel.__init__\<close> (lines 183-191); the default is written
  \<^verbatim>\<open>(EventTransformerDecoder)\<close>, without a comma. The parent constructor finds the
  attribute already set.
\<close>

definition EventCondTransformerModel_init ::
  "(nat \<Rightarrow> nat \<Rightarrow> 'f list list) \<Rightarrow> compat option \<Rightarrow> encoder_class \<Rightarrow> ('f, 'o) decoder_module \<Rightarrow>
   kwargs \<Rightarrow> error + ('f, 'o) event_model" where
  "EventCondTransformerModel_init randn attr enc dec kw =
     and_then
       (TransformerModel_init (Some (default_compat attr (Class EventTransformerDecoder))) enc dec kw)
       (\<lambda>self. Inr \<lparr>encoder = encoder self, decoder = decoder self,
                     compatible_decoders = compatible_decoders self,
                     pad_idx = pad_idx self, start_idx = start_idx self,
                     train_forward_keys = train_forward_keys self @ [''events''],
                     inference_forward_keys = inference_forward_keys self @ [''events''],
                     label_encoder = EventEncoder_init randn (emb_dim dec) 527\<rparr>)"

text \<open>
  \<^verbatim>\<open>KeywordCondTransformerModel.__init__\<close> (lines 225-232); the default is written
  \<^verbatim>\<open>(KeywordProbTransformerDecoder,)\<close>.
\<close>

definition KeywordCondTransformerModel_init ::
  "compat option \<Rightarrow> encoder_class \<Rightarrow> ('f, 'o) decoder_module \<Rightarrow> kwargs \<Rightarrow> error + ('f, 'o) caption_model" where
  "KeywordCondTransformerModel_init attr enc dec kw =
     and_then
       (TransformerModel_init (Some (default_compat attr (Tuple [KeywordProbTransformerDecoder])))
          enc dec kw)
       (\<lambda>self. Inr (self\<lparr>train_forward_keys := train_forward_keys self @ [''keywords''],
                          inference_forward_keys := inference_forward_keys self @ [''keywords'']\<rparr>))"

section \<open>The label encoder\<close>

text \<open>
  \<^verbatim>\<open>EventEncoder.forward\<close> is three tensor operations of the torch library on float32
  tensors. Their arithmetic (rounding, overflow to an infinity, NaN) is not represented:
  the operations are parameters, collected in a record, and the embedding says only how
  the module composes them.
  \<^item> \<open>sum_rows\<close> is \<^verbatim>\<open>x.sum(dim=1, keepdim=True)\<close>;
  \<^item> \<open>divide\<close> is \<^verbatim>\<open>a / b\<close> with broadcasting, which raises nothing on a zero divisor;
  \<^item> \<open>matmul\<close> is \<^verbatim>\<open>a @ b\<close>, which raises when the shapes do not fit.
\<close>

record 'f torch =
  sum_rows :: "'f list list \<Rightarrow> 'f list list"
  divide :: "'f list list \<Rightarrow> 'f list list \<Rightarrow> 'f list list"
  matmul :: "'f list list \<Rightarrow> 'f list list \<Rightarrow> error + 'f list list"

text \<open>\<^verbatim>\<open>EventEncoder.forward\<close> (lines 175-178).\<close>

definition EventEncoder_forward ::
  "'f torch \<Rightarrow> 'f EventEncoder \<Rightarrow> 'f list list \<Rightarrow> error + 'f list list" where
  "EventEncoder_forward torch enc word_idxs =
     (let indices = divide torch word_idxs (sum_rows torch word_idxs);
          embeddings = matmul torch indices (label_embedding enc)
      in embeddings)"

section \<open>Teacher-forced training step\<close>

text \<open>
  The decoder is an external module. Each invocation is recorded in a log of the inputs it
  was called with, so that the number of invocations is observable.
\<close>

definition call_decoder ::
  "('f, 'o) decoder_module \<Rightarrow> 'f decoder_input \<Rightarrow> 'f decoder_input list \<Rightarrow> (error + 'o) \<times> 'f decoder_input list" where
  "call_decoder dm di calls = (forward dm di, calls @ [di])"

text \<open>
  The dictionary \<^verbatim>\<open>TransformerModel.seq_forward\<close> passes to the decoder (lines 21-30), in
  Python's evaluation order.
\<close>

definition TransformerModel_seq_forward_input ::
  "('f, 'o, 'z) caption_model_scheme \<Rightarrow> 'f input_dict \<Rightarrow> error + 'f decoder_input" where
  "TransformerModel_seq_forward_input self input_dict =
     and_then (getitem ''caps'' (in_caps input_dict)) (\<lambda>caps.
       let caps_padding_mask = cols_to (- 1) (eq_mask caps (pad_idx self)) in
       and_then (getitem ''attn_embs'' (in_attn_embs input_dict)) (\<lambda>attn_embs.
       and_then (getitem ''attn_emb_lens'' (in_attn_emb_lens input_dict)) (\<lambda>attn_emb_lens.
         Inr (empty_decoder_input
                \<lparr>dec_word := Some (cols_to (- 1) caps),
                 dec_attn_embs := Some attn_embs,
                 dec_attn_emb_lens := Some attn_emb_lens,
                 dec_caps_padding_mask := Some caps_padding_mask\<rparr>))))"

text \<open>
  \<^verbatim>\<open>TransformerModel.seq_forward\<close> (lines 20-32); \<^verbatim>\<open>EventCondTransformerModel\<close> inherits it
  (its own version is commented out).
\<close>

definition TransformerModel_seq_forward ::
  "('f, 'o, 'z) caption_model_scheme \<Rightarrow> 'f input_dict \<Rightarrow> 'f decoder_input list \<Rightarrow>
   (error + 'o) \<times> 'f decoder_input list" where
  "TransformerModel_seq_forward self input_dict calls =
     (case TransformerModel_seq_forward_input self input_dict of
        Inl e \<Rightarrow> (Inl e, calls)
      | Inr di \<Rightarrow> call_decoder (decoder self) di calls)"

text \<open>\<^verbatim>\<open>M2TransformerModel.seq_forward\<close> (lines 104-113): no padding mask.\<close>

definition M2TransformerModel_seq_forward_input ::
  "('f, 'o, 'z) caption_model_scheme \<Rightarrow> 'f input_dict \<Rightarrow> error + 'f decoder_input" where
  "M2TransformerModel_seq_forward_input self input_dict =
     and_then (getitem ''caps'' (in_caps input_dict)) (\<lambda>caps.
       and_then (getitem ''attn_embs'' (in_attn_embs input_dict)) (\<lambda>attn_embs.
       and_then (getitem ''attn_emb_mask'' (in_attn_emb_mask input_dict)) (\<lambda>attn_emb_mask.
         Inr (empty_decoder_input
                \<lparr>dec_word := Some (cols_to (- 1) caps),
                 dec_attn_embs := Some attn_embs,
                 dec_attn_emb_mask := Some attn_emb_mask\<rparr>))))"

definition M2TransformerModel_seq_forward ::
  "('f, 'o, 'z) caption_model_scheme \<Rightarrow> 'f input_dict \<Rightarrow> 'f decoder_input list \<Rightarrow>
   (error + 'o) \<times> 'f decoder_input list" where
  "M2TransformerModel_seq_forward self input_dict calls =
     (case M2TransformerModel_seq_forward_input self input_dict of
        Inl e \<Rightarrow> (Inl e, calls)
      | Inr di \<Rightarrow> call_decoder (decoder self) di calls)"

text \<open>\<^verbatim>\<open>KeywordCondTransformerModel.seq_forward\<close> (lines 234-248).\<close>

definition KeywordCondTransformerModel_seq_forward_input ::
  "('f, 'o, 'z) caption_model_scheme \<Rightarrow> 'f input_dict \<Rightarrow> error + 'f decoder_input" where
  "KeywordCondTransformerModel_seq_forward_input self input_dict =
     and_then (getitem ''caps'' (in_caps input_dict)) (\<lambda>caps.
       let caps_padding_mask = cols_to (- 1) (eq_mask caps (pad_idx self)) in
       and_then (getitem ''keywords'' (in_keywords input_dict)) (\<lambda>keywords.
       and_then (getitem ''attn_embs'' (in_attn_embs input_dict)) (\<lambda>attn_embs.
       and_then (getitem ''attn_emb_lens'' (in_attn_emb_lens input_dict)) (\<lambda>attn_emb_lens.
         Inr (empty_decoder_input
                \<lparr>dec_word := Some (cols_to (- 1) caps),
                 dec_attn_embs := Some attn_embs,
                 dec_attn_emb_lens := Some attn_emb_lens,
                 dec_keywords := Some keywords,
                 dec_caps_padding_mask := Some caps_padding_mask\<rparr>)))))"

definition KeywordCondTransformerModel_seq_forward ::
  "('f, 'o, 'z) caption_model_scheme \<Rightarrow> 'f input_dict \<Rightarrow> 'f decoder_input list \<Rightarrow>
   (error + 'o) \<times> 'f decoder_input list" where
  "KeywordCondTransformerModel_seq_forward self input_dict calls =
     (case KeywordCondTransformerModel_seq_forward_input self input_dict of
        Inl e \<Rightarrow> (Inl e, calls)
      | Inr di \<Rightarrow> call_decoder (decoder self) di calls)"

section \<open>Step-wise decoding with scheduled sampling\<close>

text \<open>
  \<^verbatim>\<open>random.random()\<close> reads the next number of the generator and advances it: the
  generator is the stream \<open>rng\<close> of the numbers it will return, each in \<open>[0, 1)\<close>; a call
  returns \<open>shd rng\<close> and leaves \<open>stl rng\<close>. A function that may draw returns the generator
  it leaves behind, also when it raises.
\<close>

text \<open>
  The \<^verbatim>\<open>else\<close> branch of the section "determine input word" (lines 47-51 and 128-132,
  the same text in both classes).
\<close>

definition generated_input_word ::
  "('f, 'o, 'z) caption_model_scheme \<Rightarrow> 'f input_dict \<Rightarrow> 'f output_dict \<Rightarrow> int \<Rightarrow> error + int list list" where
  "generated_input_word self input_dict output t =
     and_then (getitem ''attn_embs'' (in_attn_embs input_dict)) (\<lambda>attn_embs.
       let start_word = start_column (start_idx self) (int (length attn_embs)) in
       if t = 0 then Inr start_word
       else and_then (getitem ''seqs'' (out_seqs output)) (\<lambda>seqs.
              torch_cat start_word (cols_to t seqs)))"

text \<open>
  The section "determine input word" of \<^verbatim>\<open>prepare_decoder_input\<close> (lines 44-51 and
  125-132). Python's \<^verbatim>\<open>and\<close> draws only when the mode is \<^verbatim>\<open>"train"\<close>, and draws before
  it looks \<^verbatim>\<open>ss_ratio\<close> up.
\<close>

definition determine_input_word ::
  "('f, 'o, 'z) caption_model_scheme \<Rightarrow> 'f input_dict \<Rightarrow> 'f output_dict \<Rightarrow> int \<Rightarrow> real stream \<Rightarrow>
   (error + int list list) \<times> real stream" where
  "determine_input_word self input_dict output t rng =
     (case getitem ''mode'' (in_mode input_dict) of
        Inl e \<Rightarrow> (Inl e, rng)
      | Inr mode \<Rightarrow>
          if mode = ''train'' then
            (case getitem ''ss_ratio'' (in_ss_ratio input_dict) of
               Inl e \<Rightarrow> (Inl e, stl rng)
             | Inr ss_ratio \<Rightarrow>
                 if shd rng < ss_ratio
                 then (and_then (getitem ''caps'' (in_caps input_dict)) (\<lambda>caps.
                         Inr (cols_to (t + 1) caps)), stl rng)
                 else (generated_input_word self input_dict output t, stl rng))
          else (generated_input_word self input_dict output t, rng))"

text \<open>\<^verbatim>\<open>TransformerModel.prepare_decoder_input\<close> (lines 34-57).\<close>

definition TransformerModel_prepare_decoder_input ::
  "('f, 'o, 'z) caption_model_scheme \<Rightarrow> 'f input_dict \<Rightarrow> 'f output_dict \<Rightarrow> real stream \<Rightarrow>
   (error + 'f decoder_input) \<times> real stream" where
  "TransformerModel_prepare_decoder_input self input_dict output rng =
     (case and_then (getitem ''attn_embs'' (in_attn_embs input_dict)) (\<lambda>attn_embs.
           and_then (getitem ''attn_emb_lens'' (in_attn_emb_lens input_dict)) (\<lambda>attn_emb_lens.
           and_then (getitem ''t'' (in_t input_dict)) (\<lambda>t. Inr (attn_embs, attn_emb_lens, t)))) of
        Inl e \<Rightarrow> (Inl e, rng)
      | Inr (attn_embs, attn_emb_lens, t) \<Rightarrow>
          (case determine_input_word self input_dict output t rng of
             (Inl e, rng') \<Rightarrow> (Inl e, rng')
           | (Inr word, rng') \<Rightarrow>
               (and_then (getitem ''attn_embs'' (in_attn_embs input_dict)) (\<lambda>on_device.
                  Inr (empty_decoder_input
                         \<lparr>dec_attn_embs := Some attn_embs,
                          dec_attn_emb_lens := Some attn_emb_lens,
                          dec_word := Some word,
                          dec_caps_padding_mask := Some (eq_mask word (pad_idx self))\<rparr>)),
                rng')))"

text \<open>\<^verbatim>\<open>M2TransformerModel.prepare_decoder_input\<close> (lines 115-136): no padding mask.\<close>

definition M2TransformerModel_prepare_decoder_input ::
  "('f, 'o, 'z) caption_model_scheme \<Rightarrow> 'f input_dict \<Rightarrow> 'f output_dict \<Rightarrow> real stream \<Rightarrow>
   (error + 'f decoder_input) \<times> real stream" where
  "M2TransformerModel_prepare_decoder_input self input_dict output rng =
     (case and_then (getitem ''attn_embs'' (in_attn_embs input_dict)) (\<lambda>attn_embs.
           and_then (getitem ''attn_emb_mask'' (in_attn_emb_mask input_dict)) (\<lambda>attn_emb_mask.
           and_then (getitem ''t'' (in_t input_dict)) (\<lambda>t. Inr (attn_embs, attn_emb_mask, t)))) of
        Inl e \<Rightarrow> (Inl e, rng)
      | Inr (attn_embs, attn_emb_mask, t) \<Rightarrow>
          (case determine_input_word self input_dict output t rng of
             (Inl e, rng') \<Rightarrow> (Inl e, rng')
           | (Inr word, rng') \<Rightarrow>
               (Inr (empty_decoder_input
                       \<lparr>dec_attn_embs := Some attn_embs,
                        dec_attn_emb_mask := Some attn_emb_mask,
                        dec_word := Some word\<rparr>),
                rng')))"

text \<open>\<^verbatim>\<open>EventCondTransformerModel.prepare_decoder_input\<close> (lines 207-210).\<close>

definition EventCondTransformerModel_prepare_decoder_input ::
  "'f torch \<Rightarrow> ('f, 'o, 'z) event_model_scheme \<Rightarrow> 'f input_dict \<Rightarrow> 'f output_dict \<Rightarrow> real stream \<Rightarrow>
   (error + 'f decoder_input) \<times> real stream" where
  "EventCondTransformerModel_prepare_decoder_input torch self input_dict output rng =
     (case TransformerModel_prepare_decoder_input self input_dict output rng of
        (Inl e, rng') \<Rightarrow> (Inl e, rng')
      | (Inr decoder_input, rng') \<Rightarrow>
          (and_then (getitem ''events'' (in_events input_dict)) (\<lambda>events.
           and_then (EventEncoder_forward torch (label_encoder self) events) (\<lambda>embeddings.
             Inr (decoder_input\<lparr>dec_events := Some embeddings\<rparr>))),
           rng'))"

text \<open>\<^verbatim>\<open>KeywordCondTransformerModel.prepare_decoder_input\<close> (lines 250-253).\<close>

definition KeywordCondTransformerModel_prepare_decoder_input ::
  "('f, 'o, 'z) caption_model_scheme \<Rightarrow> 'f input_dict \<Rightarrow> 'f output_dict \<Rightarrow> real stream \<Rightarrow>
   (error + 'f decoder_input) \<times> real stream" where
  "KeywordCondTransformerModel_prepare_decoder_input self input_dict output rng =
     (case TransformerModel_prepare_decoder_input self input_dict output rng of
        (Inl e, rng') \<Rightarrow> (Inl e, rng')
      | (Inr decoder_input, rng') \<Rightarrow>
          (and_then (getitem ''keywords'' (in_keywords input_dict)) (\<lambda>keywords.
             Inr (decoder_input\<lparr>dec_keywords := Some keywords\<rparr>)),
           rng'))"

section \<open>Beam search\<close>

text \<open>
  \<^verbatim>\<open>prepare_beamsearch_decoder_input\<close> mutates the beam state \<^verbatim>\<open>output_i\<close>: it returns the
  state it leaves behind next to its result, also when it raises.
\<close>

text \<open>The three reads at the head of every variant (lines 61-63, 140-142).\<close>

definition step_context :: "'f input_dict \<Rightarrow> error + int \<times> int \<times> int" where
  "step_context input_dict =
     and_then (getitem ''t'' (in_t input_dict)) (\<lambda>t.
     and_then (getitem ''sample_idx'' (in_sample_idx input_dict)) (\<lambda>i.
     and_then (getitem ''beam_size'' (in_beam_size input_dict)) (\<lambda>beam_size.
       Inr (t, i, beam_size))))"

text \<open>
  The section "determine input word" of the beam search (lines 77-81 and 156-160): the
  whole of \<^verbatim>\<open>output_i["seqs"]\<close> is appended to the start column, with no slice.
\<close>

definition beam_input_word ::
  "('f, 'o, 'z) caption_model_scheme \<Rightarrow> int \<Rightarrow> int \<Rightarrow> 'f output_dict \<Rightarrow> error + int list list" where
  "beam_input_word self t beam_size output_i =
     (let start_word = start_column (start_idx self) beam_size in
      if t = 0 then Inr start_word
      else and_then (getitem ''seqs'' (out_seqs output_i)) (\<lambda>seqs. torch_cat start_word seqs))"

text \<open>\<^verbatim>\<open>TransformerModel.prepare_beamsearch_decoder_input\<close> (lines 59-86).\<close>

definition TransformerModel_prepare_beamsearch_decoder_input ::
  "('f, 'o, 'z) caption_model_scheme \<Rightarrow> 'f input_dict \<Rightarrow> 'f output_dict \<Rightarrow>
   (error + 'f decoder_input) \<times> 'f output_dict" where
  "TransformerModel_prepare_beamsearch_decoder_input self input_dict output_i =
     (case step_context input_dict of
        Inl e \<Rightarrow> (Inl e, output_i)
      | Inr (t, i, beam_size) \<Rightarrow>
          (case (if t = 0 then
                   and_then (getitem ''attn_embs'' (in_attn_embs input_dict)) (\<lambda>x.
                   and_then (py_index x i) (\<lambda>xi.
                   and_then (repeat_tensor xi beam_size) (\<lambda>attn_embs.
                   and_then (getitem ''attn_emb_lens'' (in_attn_emb_lens input_dict)) (\<lambda>l.
                   and_then (py_index l i) (\<lambda>li.
                   and_then (repeat_tensor li beam_size) (\<lambda>attn_emb_lens.
                     Inr (output_i\<lparr>out_attn_embs := Some attn_embs,
                                    out_attn_emb_lens := Some attn_emb_lens\<rparr>)))))))
                 else Inr output_i) of
             Inl e \<Rightarrow> (Inl e, output_i)
           | Inr output_i' \<Rightarrow>
               (and_then (getitem ''attn_embs'' (out_attn_embs output_i')) (\<lambda>attn_embs.
                and_then (getitem ''attn_emb_lens'' (out_attn_emb_lens output_i')) (\<lambda>attn_emb_lens.
                and_then (beam_input_word self t beam_size output_i') (\<lambda>word.
                and_then (getitem ''attn_embs'' (in_attn_embs input_dict)) (\<lambda>on_device.
                  Inr (empty_decoder_input
                         \<lparr>dec_attn_embs := Some attn_embs,
                          dec_attn_emb_lens := Some attn_emb_lens,
                          dec_word := Some word,
                          dec_caps_padding_mask := Some (eq_mask word (pad_idx self))\<rparr>))))),
                output_i')))"

text \<open>\<^verbatim>\<open>M2TransformerModel.prepare_beamsearch_decoder_input\<close> (lines 138-163).\<close>

definition M2TransformerModel_prepare_beamsearch_decoder_input ::
  "('f, 'o, 'z) caption_model_scheme \<Rightarrow> 'f input_dict \<Rightarrow> 'f output_dict \<Rightarrow>
   (error + 'f decoder_input) \<times> 'f output_dict" where
  "M2TransformerModel_prepare_beamsearch_decoder_input self input_dict output_i =
     (case step_context input_dict of
        Inl e \<Rightarrow> (Inl e, output_i)
      | Inr (t, i, beam_size) \<Rightarrow>
          (case (if t = 0 then
                   and_then (getitem ''attn_embs'' (in_attn_embs input_dict)) (\<lambda>x.
                   and_then (py_index x i) (\<lambda>xi.
                   and_then (repeat_tensor xi beam_size) (\<lambda>attn_embs.
                   and_then (getitem ''attn_emb_mask'' (in_attn_emb_mask input_dict)) (\<lambda>m.
                   and_then (py_index m i) (\<lambda>mi.
                   and_then (repeat_tensor mi beam_size) (\<lambda>attn_emb_mask.
                     Inr (output_i\<lparr>out_attn_embs := Some attn_embs,
                                    out_attn_emb_mask := Some attn_emb_mask\<rparr>)))))))
                 else Inr output_i) of
             Inl e \<Rightarrow> (Inl e, output_i)
           | Inr output_i' \<Rightarrow>
               (and_then (getitem ''attn_embs'' (out_attn_embs output_i')) (\<lambda>attn_embs.
                and_then (getitem ''attn_emb_mask'' (out_attn_emb_mask output_i')) (\<lambda>attn_emb_mask.
                and_then (beam_input_word self t beam_size output_i') (\<lambda>word.
                  Inr (empty_decoder_input
                         \<lparr>dec_attn_embs := Some attn_embs,
                          dec_attn_emb_mask := Some attn_emb_mask,
                          dec_word := Some word\<rparr>)))),
                output_i')))"

text \<open>\<^verbatim>\<open>EventCondTransformerModel.prepare_beamsearch_decoder_input\<close> (lines 212-220).\<close>

definition EventCondTransformerModel_prepare_beamsearch_decoder_input ::
  "'f torch \<Rightarrow> ('f, 'o, 'z) event_model_scheme \<Rightarrow> 'f input_dict \<Rightarrow> 'f output_dict \<Rightarrow>
   (error + 'f decoder_input) \<times> 'f output_dict" where
  "EventCondTransformerModel_prepare_beamsearch_decoder_input torch self input_dict output_i =
     (case TransformerModel_prepare_beamsearch_decoder_input self input_dict output_i of
        (Inl e, output_i1) \<Rightarrow> (Inl e, output_i1)
      | (Inr decoder_input, output_i1) \<Rightarrow>
          (case step_context input_dict of
             Inl e \<Rightarrow> (Inl e, output_i1)
           | Inr (t, i, beam_size) \<Rightarrow>
               (case (if t = 0 then
                        and_then (getitem ''events'' (in_events input_dict)) (\<lambda>events.
                        and_then (EventEncoder_forward torch (label_encoder self) events) (\<lambda>embeddings.
                        and_then (py_index embeddings i) (\<lambda>ei.
                        and_then (repeat_tensor ei beam_size) (\<lambda>r.
                          Inr (output_i1\<lparr>out_events := Some r\<rparr>)))))
                      else Inr output_i1) of
                  Inl e \<Rightarrow> (Inl e, output_i1)
                | Inr output_i2 \<Rightarrow>
                    (and_then (getitem ''events'' (out_events output_i2)) (\<lambda>events.
                       Inr (decoder_input\<lparr>dec_events := Some events\<rparr>)),
                     output_i2))))"

text \<open>\<^verbatim>\<open>KeywordCondTransformerModel.prepare_beamsearch_decoder_input\<close> (lines 255-264).\<close>

definition KeywordCondTransformerModel_prepare_beamsearch_decoder_input ::
  "('f, 'o, 'z) caption_model_scheme \<Rightarrow> 'f input_dict \<Rightarrow> 'f output_dict \<Rightarrow>
   (error + 'f decoder_input) \<times> 'f output_dict" where
  "KeywordCondTransformerModel_prepare_beamsearch_decoder_input self input_dict output_i =
     (case TransformerModel_prepare_beamsearch_decoder_input self input_dict output_i of
        (Inl e, output_i1) \<Rightarrow> (Inl e, output_i1)
      | (Inr decoder_input, output_i1) \<Rightarrow>
          (case step_context input_dict of
             Inl e \<Rightarrow> (Inl e, output_i1)
           | Inr (t, i, beam_size) \<Rightarrow>
               (case (if t = 0 then
                        and_then (getitem ''keywords'' (in_keywords input_dict)) (\<lambda>keywords.
                        and_then (py_index keywords i) (\<lambda>ki.
                        and_then (repeat_tensor ki beam_size) (\<lambda>r.
                          Inr (output_i1\<lparr>out_keywords := Some r\<rparr>))))
                      else Inr output_i1) of
                  Inl e \<Rightarrow> (Inl e, output_i1)
                | Inr output_i2 \<Rightarrow>
                    (and_then (getitem ''keywords'' (out_keywords output_i2)) (\<lambda>keywords.
                       Inr (decoder_input\<lparr>dec_keywords := Some keywords\<rparr>)),
                     output_i2))))"

section \<open>Properties stated about the dictionaries\<close>

text \<open>
  The cached slot holds \<^verbatim>\<open>repeat_tensor(src[i], beam_size)\<close>: the sample \<open>i\<close> of the
  per-sample tensor \<open>src\<close>, replicated over the beam.
\<close>

definition expanded_from :: "'a list option \<Rightarrow> int \<Rightarrow> int \<Rightarrow> 'a list option \<Rightarrow> bool" where
  "expanded_from src i beam_size cached =
     (case src of
        None \<Rightarrow> False
      | Some x \<Rightarrow>
          (case py_index x i of
             Inl e \<Rightarrow> False
           | Inr xi \<Rightarrow>
               (case repeat_tensor xi beam_size of
                  Inl e \<Rightarrow> False
                | Inr r \<Rightarrow> cached = Some r)))"

text \<open>The label embeddings of a batch, when the key is present and the encoder returns.\<close>

definition encoded_events ::
  "'f torch \<Rightarrow> 'f EventEncoder \<Rightarrow> 'f input_dict \<Rightarrow> 'f list list option" where
  "encoded_events torch enc input_dict =
     (case in_events input_dict of
        None \<Rightarrow> None
      | Some events \<Rightarrow>
          (case EventEncoder_forward torch enc events of Inl e \<Rightarrow> None | Inr emb \<Rightarrow> Some emb))"

text \<open>
  A decoder input carries a word tensor and a padding mask, and the mask is the
  elementwise comparison of the word tensor with \<open>pad\<close>.
\<close>

definition mask_marks_pad :: "int \<Rightarrow> 'f decoder_input \<Rightarrow> bool" where
  "mask_marks_pad pad di =
     (case dec_word di of
        None \<Rightarrow> False
      | Some word \<Rightarrow> dec_caps_padding_mask di = Some (eq_mask word pad))"

section \<open>A concrete batch\<close>

text \<open>
  Two samples with captions of length 5, \<open>pad_idx = 0\<close> and \<open>start_idx = 1\<close>, three label
  classes and an embedding width of 2.
\<close>

definition example_decoder :: "(real, nat) decoder_module" where
  "example_decoder =
     \<lparr>dec_class = TransformerDecoder, emb_dim = 2,
      forward = (\<lambda>di. case dec_word di of None \<Rightarrow> Inl RuntimeError | Some w \<Rightarrow> Inr (length w))\<rparr>"

definition example_kwargs :: kwargs where
  "example_kwargs =
     \<lparr>kw_pad_idx = 0, kw_start_idx = 1, kw_train_forward_keys = [''caps''],
      kw_inference_forward_keys = []\<rparr>"

definition example_model :: "(real, nat) caption_model" where
  "example_model =
     \<lparr>encoder = OtherEncoder, decoder = example_decoder,
      compatible_decoders = Tuple [TransformerDecoder], pad_idx = 0, start_idx = 1,
      train_forward_keys = [''caps''], inference_forward_keys = []\<rparr>"

definition example_event_model :: "(real, nat) event_model" where
  "example_event_model =
     \<lparr>encoder = OtherEncoder, decoder = example_decoder,
      compatible_decoders = Class EventTransformerDecoder, pad_idx = 0, start_idx = 1,
      train_forward_keys = [''caps'', ''events''], inference_forward_keys = [''events''],
      label_encoder = \<lparr>label_embedding = [[1, 0], [0, 1], [1, 1]]\<rparr>\<rparr>"

definition example_input :: "real input_dict" where
  "example_input =
     \<lparr>in_caps = Some [[1, 5, 6, 2, 0], [1, 7, 2, 0, 0]],
      in_attn_embs = Some [[[1 / 2]], [[1 / 4]]],
      in_attn_emb_lens = Some [1, 1],
      in_attn_emb_mask = Some [[True], [False]],
      in_t = Some 0,
      in_mode = Some ''train'',
      in_ss_ratio = Some (1 / 2),
      in_sample_idx = Some 1,
      in_beam_size = Some 2,
      in_events = Some [[1, 0, 1], [0, 1, 0]],
      in_keywords = Some [[1 / 2, 1 / 2], [1, 0]]\<rparr>"

definition empty_output :: "real output_dict" where
  "empty_output =
     \<lparr>out_seqs = None, out_attn_embs = None, out_attn_emb_lens = None,
      out_attn_emb_mask = None, out_events = None, out_keywords = None\<rparr>"

text \<open>The beam state of sample 1 after one step: the cache of the first step and one token per beam.\<close>

definition example_beam_state :: "real output_dict" where
  "example_beam_state =
     \<lparr>out_seqs = Some [[5], [7]],
      out_attn_embs = Some [[[1 / 4]], [[1 / 4]]],
      out_attn_emb_lens = Some [1, 1],
      out_attn_emb_mask = Some [[False], [False]],
      out_events = Some [[0, 1], [0, 1]],
      out_keywords = Some [[1, 0], [1, 0]]\<rparr>"

text \<open>A running output of step-wise decoding, preallocated to four tokens per sample.\<close>

definition example_output :: "real output_dict" where
  "example_output = empty_output\<lparr>out_seqs := Some [[5, 6, 0, 0], [7, 8, 0, 0]]\<rparr>"

text \<open>What the primary variant returns for the beam state above at \<open>t = 1\<close>.\<close>

definition example_beam_input :: "real decoder_input" where
  "example_beam_input =
     \<lparr>dec_word = Some [[1, 5], [1, 7]],
      dec_attn_embs = Some [[[1 / 4]], [[1 / 4]]],
      dec_attn_emb_lens = Some [1, 1],
      dec_attn_emb_mask = None,
      dec_caps_padding_mask = Some [[False, False], [False, False]],
      dec_events = None, dec_keywords = None\<rparr>"

text \<open>What the primary variant returns for sample 1 at \<open>t = 0\<close> with an empty beam state.\<close>

definition example_first_input :: "real decoder_input" where
  "example_first_input =
     \<lparr>dec_word = Some [[1], [1]],
      dec_attn_embs = Some [[[1 / 4]], [[1 / 4]]],
      dec_attn_emb_lens = Some [1, 1],
      dec_attn_emb_mask = None,
      dec_caps_padding_mask = Some [[False], [False]],
      dec_events = None, dec_keywords = None\<rparr>"

text \<open>
  The word tensor is the start-token column of \<open>n\<close> rows, followed for \<open>t \<noteq> 0\<close> by
  \<^verbatim>\<open>output["seqs"][:, :t]\<close>.
\<close>

definition start_then_generated ::
  "int \<Rightarrow> nat \<Rightarrow> int \<Rightarrow> 'f output_dict \<Rightarrow> int list list option \<Rightarrow> bool" where
  "start_then_generated start n t output word =
     (if t = 0 then word = Some (replicate n [start])
      else (case out_seqs output of
              None \<Rightarrow> False
            | Some seqs \<Rightarrow>
                length seqs = n \<and>
                word = Some (map2 (\<lambda>r s. r @ s) (replicate n [start]) (cols_to t seqs))))"

text \<open>
  A generator whose first draw is below the scheduled-sampling ratio \<open>1/2\<close> of the
  concrete batch and whose second draw is not, and what the primary variant returns at
  \<open>t = 2\<close> for each draw.
\<close>

definition example_rng :: "real stream" where
  "example_rng = (1 / 4) ## (3 / 4) ## sconst 0"

definition example_forced_input :: "real decoder_input" where
  "example_forced_input =
     \<lparr>dec_word = Some [[1, 5, 6], [1, 7, 2]],
      dec_attn_embs = Some [[[1 / 2]], [[1 / 4]]],
      dec_attn_emb_lens = Some [1, 1],
      dec_attn_emb_mask = None,
      dec_caps_padding_mask = Some [[False, False, False], [False, False, False]],
      dec_events = None, dec_keywords = None\<rparr>"

definition example_sampled_input :: "real decoder_input" where
  "example_sampled_input =
     \<lparr>dec_word = Some [[1, 5, 6], [1, 7, 8]],
      dec_attn_embs = Some [[[1 / 2]], [[1 / 4]]],
      dec_attn_emb_lens = Some [1, 1],
      dec_attn_emb_mask = None,
      dec_caps_padding_mask = Some [[False, False, False], [False, False, False]],
      dec_events = None, dec_keywords = None\<rparr>"

text \<open>A decoder of the M2 family.\<close>

definition example_m2_decoder :: "(real, nat) decoder_module" where
  "example_m2_decoder = example_decoder\<lparr>dec_class := M2TransformerDecoder\<rparr>"

text \<open>What \<^verbatim>\<open>seq_forward\<close> of the primary variant passes to the decoder on the concrete batch.\<close>

definition example_seq_input :: "real decoder_input" where
  "example_seq_input =
     \<lparr>dec_word = Some [[1, 5, 6, 2], [1, 7, 2, 0]],
      dec_attn_embs = Some [[[1 / 2]], [[1 / 4]]],
      dec_attn_emb_lens = Some [1, 1],
      dec_attn_emb_mask = None,
      dec_caps_padding_mask = Some [[False, False, False, False], [False, False, False, True]],
      dec_events = None, dec_keywords = None\<rparr>"

text \<open>
  A kernel for the concrete batch, which computes on exact numbers: row sums, division
  of every row by its sum, and the matrix product.
\<close>

definition example_torch :: "real torch" where
  "example_torch =
     \<lparr>sum_rows = map (\<lambda>row. [sum_list row]),
      divide = (\<lambda>a b. map2 (\<lambda>row s. case s of [] \<Rightarrow> row | c # cs \<Rightarrow> map (\<lambda>x. x / c) row) a b),
      matmul = (\<lambda>a b.
        if list_all (\<lambda>row. length row = length b) a
        then Inr (map (\<lambda>row. map (\<lambda>col. sum_list (map2 (\<lambda>x y. x * y) row col)) (transpose b)) a)
        else Inl RuntimeError)\<rparr>"

text \<open>
  The decoder input of the primary variant for given attention tensors and word tensor,
  and that of the M2 variant.
\<close>

definition primary_input ::
  "'f list list list \<Rightarrow> int list \<Rightarrow> int list list \<Rightarrow> int \<Rightarrow> 'f decoder_input" where
  "primary_input attn_embs attn_emb_lens word pad =
     empty_decoder_input
       \<lparr>dec_attn_embs := Some attn_embs, dec_attn_emb_lens := Some attn_emb_lens,
        dec_word := Some word, dec_caps_padding_mask := Some (eq_mask word pad)\<rparr>"

definition m2_input ::
  "'f list list list \<Rightarrow> bool list list \<Rightarrow> int list list \<Rightarrow> 'f decoder_input" where
  "m2_input attn_embs attn_emb_mask word =
     empty_decoder_input
       \<lparr>dec_attn_embs := Some attn_embs, dec_attn_emb_mask := Some attn_emb_mask,
        dec_word := Some word\<rparr>"

text \<open>The beam state of sample 1 of the concrete batch after the first step of the primary variant.\<close>

definition example_first_state :: "real output_dict" where
  "example_first_state =
     empty_output\<lparr>out_attn_embs := Some [[[1 / 4]], [[1 / 4]]], out_attn_emb_lens := Some [1, 1]\<rparr>"

section \<open>Auxiliary facts\<close>

lemma and_then_Inr_iff: "and_then m f = Inr y \<longleftrightarrow> (\<exists>x. m = Inr x \<and> f x = Inr y)"
  by (cases m) (simp_all add: and_then_def)

lemma and_then_Inr [simp]: "and_then (Inr x) f = f x"
  by (simp add: and_then_def)

lemma and_then_Inl [simp]: "and_then (Inl e) f = Inl e"
  by (simp add: and_then_def)

lemma getitem_Some [simp]: "getitem k (Some v) = Inr v"
  by (simp add: getitem_def)

lemma getitem_None [simp]: "getitem k None = Inl (KeyError k)"
  by (simp add: getitem_def)

lemma getitem_Inr_iff: "getitem k slot = Inr v \<longleftrightarrow> slot = Some v"
  by (cases slot) simp_all

lemma step_context_Inr_iff:
  "step_context d = Inr (t, i, b) \<longleftrightarrow>
     in_t d = Some t \<and> in_sample_idx d = Some i \<and> in_beam_size d = Some b"
  by (auto simp: step_context_def and_then_Inr_iff getitem_Inr_iff)

lemma torch_cat_start:
  "torch_cat (start_column s b) seqs = Inr w \<longleftrightarrow> length seqs = nat b \<and> w = map ((#) s) seqs"
proof -
  have "map2 (\<lambda>r s. r @ s) (replicate (length seqs) [s]) seqs = map ((#) s) seqs"
    by (induction seqs) simp_all
  then show ?thesis
    by (auto simp: torch_cat_def start_column_def)
qed

lemma slice_to_short: "int (length r) \<le> k \<Longrightarrow> slice_to k r = r"
  by (simp add: slice_to_def)

lemma cols_to_short: "\<forall>r\<in>set x. int (length r) \<le> k \<Longrightarrow> cols_to k x = x"
  by (simp add: cols_to_def slice_to_short map_idI)

text \<open>Unfolding the definitions on the concrete batch.\<close>

lemmas batch_eval =
  step_context_def example_model_def example_input_def example_beam_state_def
  example_beam_input_def empty_output_def example_output_def example_decoder_def
  py_index_def repeat_tensor_def beam_input_word_def torch_cat_def start_column_def
  cols_to_def slice_to_def eq_mask_def empty_decoder_input_def eval_nat_numeral

subsection \<open>Beam search of the primary and the M2 variant\<close>

text \<open>What a successful return of the beam-search step contains.\<close>

lemma Transformer_beam_Inr:
  assumes "fst (TransformerModel_prepare_beamsearch_decoder_input self d out) = Inr di"
  obtains t i b word where
    "step_context d = Inr (t, i, b)"
    "beam_input_word self t b
       (snd (TransformerModel_prepare_beamsearch_decoder_input self d out)) = Inr word"
    "dec_word di = Some word"
    "dec_caps_padding_mask di = Some (eq_mask word (pad_idx self))"
    "dec_attn_embs di =
       out_attn_embs (snd (TransformerModel_prepare_beamsearch_decoder_input self d out))"
    "dec_attn_emb_lens di =
       out_attn_emb_lens (snd (TransformerModel_prepare_beamsearch_decoder_input self d out))"
    "out_attn_embs (snd (TransformerModel_prepare_beamsearch_decoder_input self d out)) \<noteq> None"
    "out_attn_emb_lens (snd (TransformerModel_prepare_beamsearch_decoder_input self d out)) \<noteq> None"
  using assms
  by (auto simp: TransformerModel_prepare_beamsearch_decoder_input_def and_then_Inr_iff
        getitem_Inr_iff empty_decoder_input_def split: sum.splits prod.splits)

lemma M2_beam_Inr:
  assumes "fst (M2TransformerModel_prepare_beamsearch_decoder_input self d out) = Inr di"
  obtains t i b word where
    "step_context d = Inr (t, i, b)"
    "beam_input_word self t b
       (snd (M2TransformerModel_prepare_beamsearch_decoder_input self d out)) = Inr word"
    "dec_word di = Some word"
    "dec_caps_padding_mask di = None"
    "dec_attn_embs di =
       out_attn_embs (snd (M2TransformerModel_prepare_beamsearch_decoder_input self d out))"
    "dec_attn_emb_mask di =
       out_attn_emb_mask (snd (M2TransformerModel_prepare_beamsearch_decoder_input self d out))"
    "out_attn_embs (snd (M2TransformerModel_prepare_beamsearch_decoder_input self d out)) \<noteq> None"
    "out_attn_emb_mask (snd (M2TransformerModel_prepare_beamsearch_decoder_input self d out)) \<noteq> None"
  using assms
  by (auto simp: M2TransformerModel_prepare_beamsearch_decoder_input_def and_then_Inr_iff
        getitem_Inr_iff empty_decoder_input_def split: sum.splits prod.splits)

text \<open>The beam state a step leaves behind.\<close>

lemma Transformer_beam_state_later:
  "in_t d \<noteq> Some 0 \<Longrightarrow>
   snd (TransformerModel_prepare_beamsearch_decoder_input self d out) = out"
  by (auto simp: TransformerModel_prepare_beamsearch_decoder_input_def step_context_Inr_iff
        split: sum.splits prod.splits)

lemma M2_beam_state_later:
  "in_t d \<noteq> Some 0 \<Longrightarrow>
   snd (M2TransformerModel_prepare_beamsearch_decoder_input self d out) = out"
  by (auto simp: M2TransformerModel_prepare_beamsearch_decoder_input_def step_context_Inr_iff
        split: sum.splits prod.splits)

lemma Transformer_beam_seqs:
  "out_seqs (snd (TransformerModel_prepare_beamsearch_decoder_input self d out)) = out_seqs out"
  by (auto simp: TransformerModel_prepare_beamsearch_decoder_input_def and_then_Inr_iff
        split: sum.splits prod.splits)

lemma M2_beam_seqs:
  "out_seqs (snd (M2TransformerModel_prepare_beamsearch_decoder_input self d out)) = out_seqs out"
  by (auto simp: M2TransformerModel_prepare_beamsearch_decoder_input_def and_then_Inr_iff
        split: sum.splits prod.splits)

lemma beam_input_word_Inr:
  "beam_input_word self t b out = Inr word \<longleftrightarrow>
     (if t = 0 then word = replicate (nat b) [start_idx self]
      else \<exists>seqs. out_seqs out = Some seqs \<and> length seqs = nat b \<and>
             word = map ((#) (start_idx self)) seqs)"
proof (cases "t = 0")
  case True
  then show ?thesis
    by (auto simp: beam_input_word_def start_column_def)
next
  case False
  then show ?thesis
    by (auto simp: beam_input_word_def and_then_Inr_iff getitem_Inr_iff torch_cat_start)
qed

lemma beam_word_of_step:
  assumes "beam_input_word self t b out' = Inr word" and "out_seqs out' = out_seqs out"
    and "dec_word di = Some word"
  shows "(t = 0 \<longrightarrow> dec_word di = Some (replicate (nat b) [start_idx self])) \<and>
     (t \<noteq> 0 \<longrightarrow>
        (\<exists>seqs. out_seqs out = Some seqs \<and> length seqs = nat b \<and>
           dec_word di = Some (map ((#) (start_idx self)) seqs) \<and>
           ((\<forall>r\<in>set seqs. int (length r) \<le> t) \<longrightarrow>
              torch_cat (start_column (start_idx self) b) (cols_to t seqs) =
              Inr (map ((#) (start_idx self)) seqs))))"
  using assms by (auto simp: beam_input_word_Inr cols_to_short torch_cat_start split: if_splits)

subsection \<open>The cache of the first beam-search step\<close>

lemma repeat_tensor_Inr_iff: "repeat_tensor x n = Inr r \<longleftrightarrow> 0 < n \<and> r = replicate (nat n) x"
  by (auto simp: repeat_tensor_def)

lemma expanded_fromI:
  "src = Some x \<Longrightarrow> py_index x i = Inr xi \<Longrightarrow> repeat_tensor xi b = Inr r \<Longrightarrow>
   expanded_from src i b (Some r)"
  by (simp add: expanded_from_def)

lemma Transformer_beam_first:
  assumes "fst (TransformerModel_prepare_beamsearch_decoder_input self d out) = Inr di"
    and "in_t d = Some 0" and "in_sample_idx d = Some i" and "in_beam_size d = Some b"
  shows "expanded_from (in_attn_embs d) i b
           (out_attn_embs (snd (TransformerModel_prepare_beamsearch_decoder_input self d out)))"
    and "expanded_from (in_attn_emb_lens d) i b
           (out_attn_emb_lens (snd (TransformerModel_prepare_beamsearch_decoder_input self d out)))"
  using assms
  by (auto simp: TransformerModel_prepare_beamsearch_decoder_input_def step_context_def
        and_then_Inr_iff getitem_Inr_iff intro: expanded_fromI split: sum.splits)

lemma M2_beam_first:
  assumes "fst (M2TransformerModel_prepare_beamsearch_decoder_input self d out) = Inr di"
    and "in_t d = Some 0" and "in_sample_idx d = Some i" and "in_beam_size d = Some b"
  shows "expanded_from (in_attn_embs d) i b
           (out_attn_embs (snd (M2TransformerModel_prepare_beamsearch_decoder_input self d out)))"
    and "expanded_from (in_attn_emb_mask d) i b
           (out_attn_emb_mask (snd (M2TransformerModel_prepare_beamsearch_decoder_input self d out)))"
  using assms
  by (auto simp: M2TransformerModel_prepare_beamsearch_decoder_input_def step_context_def
        and_then_Inr_iff getitem_Inr_iff intro: expanded_fromI split: sum.splits)

text \<open>The conditioned variants: the parent's result with one more slot.\<close>

lemma Event_beam_Inr:
  assumes "fst (EventCondTransformerModel_prepare_beamsearch_decoder_input torch self d out) = Inr di"
  obtains di1 ev where
    "fst (TransformerModel_prepare_beamsearch_decoder_input self d out) = Inr di1"
    "di = di1\<lparr>dec_events := Some ev\<rparr>"
    "out_events (snd (EventCondTransformerModel_prepare_beamsearch_decoder_input torch self d out)) = Some ev"
  using assms
  by (auto simp: EventCondTransformerModel_prepare_beamsearch_decoder_input_def
        and_then_Inr_iff getitem_Inr_iff split: sum.splits prod.splits)

lemma Event_beam_parent_slots:
  "out_attn_embs (snd (EventCondTransformerModel_prepare_beamsearch_decoder_input torch self d out)) =
     out_attn_embs (snd (TransformerModel_prepare_beamsearch_decoder_input self d out))"
  "out_attn_emb_lens (snd (EventCondTransformerModel_prepare_beamsearch_decoder_input torch self d out)) =
     out_attn_emb_lens (snd (TransformerModel_prepare_beamsearch_decoder_input self d out))"
  by (auto simp: EventCondTransformerModel_prepare_beamsearch_decoder_input_def
        and_then_Inr_iff split: sum.splits prod.splits)

lemma Event_beam_state_later:
  "in_t d \<noteq> Some 0 \<Longrightarrow>
   snd (EventCondTransformerModel_prepare_beamsearch_decoder_input torch self d out) = out"
  using Transformer_beam_state_later [of d self out]
  by (auto simp: EventCondTransformerModel_prepare_beamsearch_decoder_input_def
        step_context_Inr_iff split: sum.splits prod.splits)

lemma Event_beam_first:
  assumes "fst (EventCondTransformerModel_prepare_beamsearch_decoder_input torch self d out) = Inr di"
    and "in_t d = Some 0" and "in_sample_idx d = Some i" and "in_beam_size d = Some b"
  shows "expanded_from (encoded_events torch (label_encoder self) d) i b
           (out_events (snd (EventCondTransformerModel_prepare_beamsearch_decoder_input torch self d out)))"
  using assms
  by (auto simp: EventCondTransformerModel_prepare_beamsearch_decoder_input_def step_context_def
        encoded_events_def and_then_Inr_iff getitem_Inr_iff intro: expanded_fromI
        split: sum.splits prod.splits)

lemma Keyword_beam_Inr:
  assumes "fst (KeywordCondTransformerModel_prepare_beamsearch_decoder_input self d out) = Inr di"
  obtains di1 kw where
    "fst (TransformerModel_prepare_beamsearch_decoder_input self d out) = Inr di1"
    "di = di1\<lparr>dec_keywords := Some kw\<rparr>"
    "out_keywords (snd (KeywordCondTransformerModel_prepare_beamsearch_decoder_input self d out)) = Some kw"
  using assms
  by (auto simp: KeywordCondTransformerModel_prepare_beamsearch_decoder_input_def
        and_then_Inr_iff getitem_Inr_iff split: sum.splits prod.splits)

lemma Keyword_beam_parent_slots:
  "out_attn_embs (snd (KeywordCondTransformerModel_prepare_beamsearch_decoder_input self d out)) =
     out_attn_embs (snd (TransformerModel_prepare_beamsearch_decoder_input self d out))"
  "out_attn_emb_lens (snd (KeywordCondTransformerModel_prepare_beamsearch_decoder_input self d out)) =
     out_attn_emb_lens (snd (TransformerModel_prepare_beamsearch_decoder_input self d out))"
  by (auto simp: KeywordCondTransformerModel_prepare_beamsearch_decoder_input_def
        and_then_Inr_iff split: sum.splits prod.splits)

lemma Keyword_beam_state_later:
  "in_t d \<noteq> Some 0 \<Longrightarrow>
   snd (KeywordCondTransformerModel_prepare_beamsearch_decoder_input self d out) = out"
  using Transformer_beam_state_later [of d self out]
  by (auto simp: KeywordCondTransformerModel_prepare_beamsearch_decoder_input_def
        step_context_Inr_iff split: sum.splits prod.splits)

lemma Keyword_beam_first:
  assumes "fst (KeywordCondTransformerModel_prepare_beamsearch_decoder_input self d out) = Inr di"
    and "in_t d = Some 0" and "in_sample_idx d = Some i" and "in_beam_size d = Some b"
  shows "expanded_from (in_keywords d) i b
           (out_keywords (snd (KeywordCondTransformerModel_prepare_beamsearch_decoder_input self d out)))"
  using assms
  by (auto simp: KeywordCondTransformerModel_prepare_beamsearch_decoder_input_def step_context_def
        and_then_Inr_iff getitem_Inr_iff intro: expanded_fromI
        split: sum.splits prod.splits)

subsection \<open>Step-wise decoding\<close>

lemma map2_start: "length seqs = n \<Longrightarrow>
    map2 (\<lambda>r s. r @ s) (replicate n [s0]) seqs = map ((#) s0) seqs"
  by (induction seqs arbitrary: n) auto

lemma generated_input_word_Inr:
  "generated_input_word self d out t = Inr word \<longleftrightarrow>
     (\<exists>embs. in_attn_embs d = Some embs \<and>
        start_then_generated (start_idx self) (length embs) t out (Some word))"
proof (cases "t = 0")
  case True
  then show ?thesis
    by (auto simp: generated_input_word_def start_then_generated_def and_then_Inr_iff
          getitem_Inr_iff start_column_def)
next
  case False
  then show ?thesis
    by (auto simp: generated_input_word_def start_then_generated_def and_then_Inr_iff
          getitem_Inr_iff torch_cat_start cols_to_def map2_start split: option.splits)
qed

lemma determine_input_word_rng:
  "in_mode d = Some mode \<Longrightarrow>
   snd (determine_input_word self d out t rng) = (if mode = ''train'' then stl rng else rng)"
  by (simp add: determine_input_word_def split: sum.splits)

lemma determine_input_word_Inr:
  assumes "fst (determine_input_word self d out t rng) = Inr word" and "in_mode d = Some mode"
  shows "(mode = ''train'' \<longrightarrow>
            (\<exists>p. in_ss_ratio d = Some p \<and>
               (shd rng < p \<longrightarrow> (\<exists>caps. in_caps d = Some caps \<and> word = cols_to (t + 1) caps)) \<and>
               (\<not> shd rng < p \<longrightarrow> generated_input_word self d out t = Inr word))) \<and>
         (mode \<noteq> ''train'' \<longrightarrow> generated_input_word self d out t = Inr word)"
  using assms
  by (auto simp: determine_input_word_def and_then_Inr_iff getitem_Inr_iff
        split: sum.splits if_splits option.splits)

lemma Transformer_step_Inr:
  assumes "fst (TransformerModel_prepare_decoder_input self d out rng) = Inr di"
  obtains embs lens t word where
    "in_attn_embs d = Some embs" "in_attn_emb_lens d = Some lens" "in_t d = Some t"
    "fst (determine_input_word self d out t rng) = Inr word"
    "snd (TransformerModel_prepare_decoder_input self d out rng) =
       snd (determine_input_word self d out t rng)"
    "dec_word di = Some word"
    "dec_caps_padding_mask di = Some (eq_mask word (pad_idx self))"
    "dec_attn_embs di = Some embs" "dec_attn_emb_lens di = Some lens"
  using assms
  by (auto simp: TransformerModel_prepare_decoder_input_def and_then_Inr_iff getitem_Inr_iff
        empty_decoder_input_def split: sum.splits prod.splits)

lemma M2_step_Inr:
  assumes "fst (M2TransformerModel_prepare_decoder_input self d out rng) = Inr di"
  obtains embs mask t word where
    "in_attn_embs d = Some embs" "in_attn_emb_mask d = Some mask" "in_t d = Some t"
    "fst (determine_input_word self d out t rng) = Inr word"
    "snd (M2TransformerModel_prepare_decoder_input self d out rng) =
       snd (determine_input_word self d out t rng)"
    "dec_word di = Some word"
    "dec_caps_padding_mask di = None"
    "dec_attn_embs di = Some embs" "dec_attn_emb_mask di = Some mask"
  using assms
  by (auto simp: M2TransformerModel_prepare_decoder_input_def and_then_Inr_iff getitem_Inr_iff
        empty_decoder_input_def split: sum.splits prod.splits)

lemma slice_to_prefix_length:
  "0 \<le> k \<Longrightarrow> k \<le> int (length row) \<Longrightarrow> int (length (slice_to k row)) = k"
  by (simp add: slice_to_def)

lemma step_word_rule:
  assumes w: "fst (determine_input_word self d out t rng) = Inr word"
    and m: "in_mode d = Some mode" and dw: "dec_word di = Some word"
  shows "(mode = ''train'' \<longrightarrow>
        (\<exists>p. in_ss_ratio d = Some p \<and>
           (shd rng < p \<longrightarrow>
              (\<exists>caps. in_caps d = Some caps \<and> dec_word di = Some (cols_to (t + 1) caps) \<and>
                 (0 \<le> t \<and> (\<forall>row\<in>set caps. t + 1 \<le> int (length row)) \<longrightarrow>
                    (\<forall>row\<in>set (cols_to (t + 1) caps). int (length row) = t + 1)))) \<and>
           (\<not> shd rng < p \<longrightarrow>
              (\<exists>embs. in_attn_embs d = Some embs \<and>
                 start_then_generated (start_idx self) (length embs) t out (dec_word di))))) \<and>
     (mode \<noteq> ''train'' \<longrightarrow>
        (\<exists>embs. in_attn_embs d = Some embs \<and>
           start_then_generated (start_idx self) (length embs) t out (dec_word di)))"
  using determine_input_word_Inr [OF w m] dw
  by (auto simp: generated_input_word_Inr cols_to_def slice_to_prefix_length)

lemmas step_eval =
  TransformerModel_prepare_decoder_input_def determine_input_word_def generated_input_word_def
  example_rng_def example_forced_input_def example_sampled_input_def

subsection \<open>The teacher-forced step\<close>

lemma slice_to_minus_one: "slice_to (- 1) row = butlast row"
  by (simp add: slice_to_def butlast_conv_take)

lemma cols_to_minus_one: "cols_to (- 1) x = map butlast x"
  by (simp add: cols_to_def slice_to_minus_one)

lemma cols_to_eq_mask: "cols_to k (eq_mask x pad) = eq_mask (cols_to k x) pad"
  by (simp add: cols_to_def eq_mask_def slice_to_def take_map)

lemma Transformer_seq_forward_input_eq:
  assumes "in_caps d = Some caps" "in_attn_embs d = Some embs" "in_attn_emb_lens d = Some lens"
  shows "TransformerModel_seq_forward_input self d =
     Inr (empty_decoder_input
            \<lparr>dec_word := Some (map butlast caps), dec_attn_embs := Some embs,
             dec_attn_emb_lens := Some lens,
             dec_caps_padding_mask := Some (eq_mask (map butlast caps) (pad_idx self))\<rparr>)"
  using assms
  by (simp add: TransformerModel_seq_forward_input_def cols_to_eq_mask cols_to_minus_one)

lemma M2_seq_forward_input_eq:
  assumes "in_caps d = Some caps" "in_attn_embs d = Some embs" "in_attn_emb_mask d = Some msk"
  shows "M2TransformerModel_seq_forward_input self d =
     Inr (empty_decoder_input
            \<lparr>dec_word := Some (map butlast caps), dec_attn_embs := Some embs,
             dec_attn_emb_mask := Some msk\<rparr>)"
  using assms
  by (simp add: M2TransformerModel_seq_forward_input_def cols_to_minus_one)

lemma Keyword_seq_forward_input_eq:
  assumes "in_caps d = Some caps" "in_attn_embs d = Some embs" "in_attn_emb_lens d = Some lens"
    "in_keywords d = Some kw"
  shows "KeywordCondTransformerModel_seq_forward_input self d =
     Inr (empty_decoder_input
            \<lparr>dec_word := Some (map butlast caps), dec_attn_embs := Some embs,
             dec_attn_emb_lens := Some lens, dec_keywords := Some kw,
             dec_caps_padding_mask := Some (eq_mask (map butlast caps) (pad_idx self))\<rparr>)"
  using assms
  by (simp add: KeywordCondTransformerModel_seq_forward_input_def cols_to_eq_mask
        cols_to_minus_one)

subsection \<open>The padding mask\<close>

lemma mask_marks_padI:
  "dec_word di = Some word \<Longrightarrow> dec_caps_padding_mask di = Some (eq_mask word pad) \<Longrightarrow>
   mask_marks_pad pad di"
  by (simp add: mask_marks_pad_def)

lemma mask_marks_pad_events [simp]:
  "mask_marks_pad pad (di\<lparr>dec_events := e\<rparr>) = mask_marks_pad pad di"
  by (simp add: mask_marks_pad_def split: option.splits)

lemma mask_marks_pad_keywords [simp]:
  "mask_marks_pad pad (di\<lparr>dec_keywords := k\<rparr>) = mask_marks_pad pad di"
  by (simp add: mask_marks_pad_def split: option.splits)

lemma Transformer_seq_input_mask:
  "TransformerModel_seq_forward_input self d = Inr di \<Longrightarrow> mask_marks_pad (pad_idx self) di"
  by (auto simp: TransformerModel_seq_forward_input_def and_then_Inr_iff getitem_Inr_iff
        empty_decoder_input_def mask_marks_pad_def cols_to_eq_mask)

lemma Keyword_seq_input_mask:
  "KeywordCondTransformerModel_seq_forward_input self d = Inr di \<Longrightarrow>
   mask_marks_pad (pad_idx self) di"
  by (auto simp: KeywordCondTransformerModel_seq_forward_input_def and_then_Inr_iff
        getitem_Inr_iff empty_decoder_input_def mask_marks_pad_def cols_to_eq_mask)

lemma Transformer_step_mask:
  "fst (TransformerModel_prepare_decoder_input self d out rng) = Inr di \<Longrightarrow>
   mask_marks_pad (pad_idx self) di"
  by (erule Transformer_step_Inr) (rule mask_marks_padI)

lemma Event_step_Inr:
  assumes "fst (EventCondTransformerModel_prepare_decoder_input torch self d out rng) = Inr di"
  obtains di1 emb where
    "fst (TransformerModel_prepare_decoder_input self d out rng) = Inr di1"
    "di = di1\<lparr>dec_events := Some emb\<rparr>"
  using assms
  by (auto simp: EventCondTransformerModel_prepare_decoder_input_def and_then_Inr_iff
        split: sum.splits prod.splits)

lemma Keyword_step_Inr:
  assumes "fst (KeywordCondTransformerModel_prepare_decoder_input self d out rng) = Inr di"
  obtains di1 kw where
    "fst (TransformerModel_prepare_decoder_input self d out rng) = Inr di1"
    "di = di1\<lparr>dec_keywords := Some kw\<rparr>"
  using assms
  by (auto simp: KeywordCondTransformerModel_prepare_decoder_input_def and_then_Inr_iff
        split: sum.splits prod.splits)

lemma Event_step_mask:
  "fst (EventCondTransformerModel_prepare_decoder_input torch self d out rng) = Inr di \<Longrightarrow>
   mask_marks_pad (pad_idx self) di"
  by (erule Event_step_Inr) (simp add: Transformer_step_mask)

lemma Keyword_step_mask:
  "fst (KeywordCondTransformerModel_prepare_decoder_input self d out rng) = Inr di \<Longrightarrow>
   mask_marks_pad (pad_idx self) di"
  by (erule Keyword_step_Inr) (simp add: Transformer_step_mask)

lemma Transformer_beam_mask:
  "fst (TransformerModel_prepare_beamsearch_decoder_input self d out) = Inr di \<Longrightarrow>
   mask_marks_pad (pad_idx self) di"
  by (erule Transformer_beam_Inr) (rule mask_marks_padI)

lemma Event_beam_mask:
  "fst (EventCondTransformerModel_prepare_beamsearch_decoder_input torch self d out) = Inr di \<Longrightarrow>
   mask_marks_pad (pad_idx self) di"
  by (erule Event_beam_Inr) (simp add: Transformer_beam_mask)

lemma Keyword_beam_mask:
  "fst (KeywordCondTransformerModel_prepare_beamsearch_decoder_input self d out) = Inr di \<Longrightarrow>
   mask_marks_pad (pad_idx self) di"
  by (erule Keyword_beam_Inr) (simp add: Transformer_beam_mask)

lemma eq_mask_entry:
  "i < length word \<Longrightarrow> j < length (word ! i) \<Longrightarrow>
   eq_mask word pad ! i ! j = (word ! i ! j = pad)"
  by (simp add: eq_mask_def)

lemma eq_mask_shape: "map length (eq_mask word pad) = map length word"
  by (simp add: eq_mask_def)

subsection \<open>The ground truth outside training\<close>

lemma determine_input_word_no_caps:
  "in_mode d \<noteq> Some ''train'' \<Longrightarrow>
   determine_input_word self (d\<lparr>in_caps := c\<rparr>) out t rng =
   determine_input_word self d out t rng"
  by (cases "in_mode d") (simp_all add: determine_input_word_def generated_input_word_def)

lemma Transformer_step_no_caps:
  "in_mode d \<noteq> Some ''train'' \<Longrightarrow>
   TransformerModel_prepare_decoder_input self (d\<lparr>in_caps := c\<rparr>) out rng =
   TransformerModel_prepare_decoder_input self d out rng"
  by (simp add: TransformerModel_prepare_decoder_input_def determine_input_word_no_caps
        split: sum.splits prod.splits)

lemma M2_step_no_caps:
  "in_mode d \<noteq> Some ''train'' \<Longrightarrow>
   M2TransformerModel_prepare_decoder_input self (d\<lparr>in_caps := c\<rparr>) out rng =
   M2TransformerModel_prepare_decoder_input self d out rng"
  by (simp add: M2TransformerModel_prepare_decoder_input_def determine_input_word_no_caps
        split: sum.splits prod.splits)

lemma Event_step_no_caps:
  "in_mode d \<noteq> Some ''train'' \<Longrightarrow>
   EventCondTransformerModel_prepare_decoder_input torch self (d\<lparr>in_caps := c\<rparr>) out rng =
   EventCondTransformerModel_prepare_decoder_input torch self d out rng"
  by (simp add: EventCondTransformerModel_prepare_decoder_input_def
        Transformer_step_no_caps split: sum.splits prod.splits)

lemma Keyword_step_no_caps:
  "in_mode d \<noteq> Some ''train'' \<Longrightarrow>
   KeywordCondTransformerModel_prepare_decoder_input self (d\<lparr>in_caps := c\<rparr>) out rng =
   KeywordCondTransformerModel_prepare_decoder_input self d out rng"
  by (simp add: KeywordCondTransformerModel_prepare_decoder_input_def
        Transformer_step_no_caps split: sum.splits prod.splits)

subsection \<open>Beam-search steps after the first\<close>

lemma step_context_Some:
  "in_t d = Some t \<Longrightarrow> in_sample_idx d = Some i \<Longrightarrow> in_beam_size d = Some b \<Longrightarrow>
   step_context d = Inr (t, i, b)"
  by (simp add: step_context_def)

lemma beam_input_word_later:
  "t \<noteq> 0 \<Longrightarrow>
   beam_input_word self t b out =
     (case out_seqs out of
        None \<Rightarrow> Inl (KeyError ''seqs'')
      | Some seqs \<Rightarrow>
          if length seqs = nat b then Inr (map ((#) (start_idx self)) seqs)
          else Inl RuntimeError)"
  by (simp add: beam_input_word_def torch_cat_def start_column_def map2_start
        split: option.splits)

lemma Transformer_beam_later:
  assumes "step_context d = Inr (t, i, b)" and "t \<noteq> 0"
  shows "fst (TransformerModel_prepare_beamsearch_decoder_input self d out) =
     (case out_attn_embs out of
        None \<Rightarrow> Inl (KeyError ''attn_embs'')
      | Some a \<Rightarrow>
          (case out_attn_emb_lens out of
             None \<Rightarrow> Inl (KeyError ''attn_emb_lens'')
           | Some l \<Rightarrow>
               (case out_seqs out of
                  None \<Rightarrow> Inl (KeyError ''seqs'')
                | Some seqs \<Rightarrow>
                    if length seqs \<noteq> nat b then Inl RuntimeError
                    else (case in_attn_embs d of
                            None \<Rightarrow> Inl (KeyError ''attn_embs'')
                          | Some x \<Rightarrow>
                              Inr (empty_decoder_input
                                     \<lparr>dec_attn_embs := Some a, dec_attn_emb_lens := Some l,
                                      dec_word := Some (map ((#) (start_idx self)) seqs),
                                      dec_caps_padding_mask :=
                                        Some (eq_mask (map ((#) (start_idx self)) seqs)
                                               (pad_idx self))\<rparr>)))))"
  using assms
  by (simp add: TransformerModel_prepare_beamsearch_decoder_input_def beam_input_word_later
        split: option.splits)

lemma M2_beam_later:
  assumes "step_context d = Inr (t, i, b)" and "t \<noteq> 0"
  shows "fst (M2TransformerModel_prepare_beamsearch_decoder_input self d out) =
     (case out_attn_embs out of
        None \<Rightarrow> Inl (KeyError ''attn_embs'')
      | Some a \<Rightarrow>
          (case out_attn_emb_mask out of
             None \<Rightarrow> Inl (KeyError ''attn_emb_mask'')
           | Some m \<Rightarrow>
               (case out_seqs out of
                  None \<Rightarrow> Inl (KeyError ''seqs'')
                | Some seqs \<Rightarrow>
                    if length seqs \<noteq> nat b then Inl RuntimeError
                    else Inr (empty_decoder_input
                                \<lparr>dec_attn_embs := Some a, dec_attn_emb_mask := Some m,
                                 dec_word := Some (map ((#) (start_idx self)) seqs)\<rparr>))))"
  using assms
  by (simp add: M2TransformerModel_prepare_beamsearch_decoder_input_def beam_input_word_later
        split: option.splits)

subsection \<open>What the beam-search step returns\<close>

lemma beam_cache_when_returned:
  assumes t: "in_t d = Some t" and i: "in_sample_idx d = Some i" and b: "in_beam_size d = Some b"
  shows
    "(t \<noteq> 0 \<longrightarrow>
        snd (TransformerModel_prepare_beamsearch_decoder_input self d out) = out \<and>
        snd (M2TransformerModel_prepare_beamsearch_decoder_input self d out) = out \<and>
        snd (EventCondTransformerModel_prepare_beamsearch_decoder_input torch eself d out) = out \<and>
        snd (KeywordCondTransformerModel_prepare_beamsearch_decoder_input self d out) = out)
     \<and> (\<forall>di. fst (TransformerModel_prepare_beamsearch_decoder_input self d out) = Inr di \<longrightarrow>
          dec_attn_embs di \<noteq> None \<and> dec_attn_emb_lens di \<noteq> None \<and>
          dec_attn_embs di =
            out_attn_embs (snd (TransformerModel_prepare_beamsearch_decoder_input self d out)) \<and>
          dec_attn_emb_lens di =
            out_attn_emb_lens (snd (TransformerModel_prepare_beamsearch_decoder_input self d out)) \<and>
          (t = 0 \<longrightarrow>
             expanded_from (in_attn_embs d) i b (dec_attn_embs di) \<and>
             expanded_from (in_attn_emb_lens d) i b (dec_attn_emb_lens di)))
     \<and> (\<forall>di. fst (M2TransformerModel_prepare_beamsearch_decoder_input self d out) = Inr di \<longrightarrow>
          dec_attn_embs di \<noteq> None \<and> dec_attn_emb_mask di \<noteq> None \<and>
          dec_attn_embs di =
            out_attn_embs (snd (M2TransformerModel_prepare_beamsearch_decoder_input self d out)) \<and>
          dec_attn_emb_mask di =
            out_attn_emb_mask (snd (M2TransformerModel_prepare_beamsearch_decoder_input self d out)) \<and>
          (t = 0 \<longrightarrow>
             expanded_from (in_attn_embs d) i b (dec_attn_embs di) \<and>
             expanded_from (in_attn_emb_mask d) i b (dec_attn_emb_mask di)))
     \<and> (\<forall>di. fst (EventCondTransformerModel_prepare_beamsearch_decoder_input torch eself d out) = Inr di \<longrightarrow>
          dec_attn_embs di \<noteq> None \<and> dec_attn_emb_lens di \<noteq> None \<and> dec_events di \<noteq> None \<and>
          dec_attn_embs di =
            out_attn_embs (snd (EventCondTransformerModel_prepare_beamsearch_decoder_input torch eself d out)) \<and>
          dec_attn_emb_lens di =
            out_attn_emb_lens (snd (EventCondTransformerModel_prepare_beamsearch_decoder_input torch eself d out)) \<and>
          dec_events di =
            out_events (snd (EventCondTransformerModel_prepare_beamsearch_decoder_input torch eself d out)) \<and>
          (t = 0 \<longrightarrow>
             expanded_from (in_attn_embs d) i b (dec_attn_embs di) \<and>
             expanded_from (in_attn_emb_lens d) i b (dec_attn_emb_lens di) \<and>
             expanded_from (encoded_events torch (label_encoder eself) d) i b (dec_events di)))
     \<and> (\<forall>di. fst (KeywordCondTransformerModel_prepare_beamsearch_decoder_input self d out) = Inr di \<longrightarrow>
          dec_attn_embs di \<noteq> None \<and> dec_attn_emb_lens di \<noteq> None \<and> dec_keywords di \<noteq> None \<and>
          dec_attn_embs di =
            out_attn_embs (snd (KeywordCondTransformerModel_prepare_beamsearch_decoder_input self d out)) \<and>
          dec_attn_emb_lens di =
            out_attn_emb_lens (snd (KeywordCondTransformerModel_prepare_beamsearch_decoder_input self d out)) \<and>
          dec_keywords di =
            out_keywords (snd (KeywordCondTransformerModel_prepare_beamsearch_decoder_input self d out)) \<and>
          (t = 0 \<longrightarrow>
             expanded_from (in_attn_embs d) i b (dec_attn_embs di) \<and>
             expanded_from (in_attn_emb_lens d) i b (dec_attn_emb_lens di) \<and>
             expanded_from (in_keywords d) i b (dec_keywords di)))"
    (is "?later \<and> ?T \<and> ?M \<and> ?E \<and> ?K")
proof (intro conjI)
  show ?later
    using t
    by (simp add: Transformer_beam_state_later M2_beam_state_later Event_beam_state_later
          Keyword_beam_state_later)
next
  show ?T
  proof (intro allI impI)
    fix di
    assume r: "fst (TransformerModel_prepare_beamsearch_decoder_input self d out) = Inr di"
    from r show "dec_attn_embs di \<noteq> None \<and> dec_attn_emb_lens di \<noteq> None \<and>
          dec_attn_embs di =
            out_attn_embs (snd (TransformerModel_prepare_beamsearch_decoder_input self d out)) \<and>
          dec_attn_emb_lens di =
            out_attn_emb_lens (snd (TransformerModel_prepare_beamsearch_decoder_input self d out)) \<and>
          (t = 0 \<longrightarrow>
             expanded_from (in_attn_embs d) i b (dec_attn_embs di) \<and>
             expanded_from (in_attn_emb_lens d) i b (dec_attn_emb_lens di))"
      using Transformer_beam_first [OF r _ i b] t
      by (elim Transformer_beam_Inr) simp
  qed
next
  show ?M
  proof (intro allI impI)
    fix di
    assume r: "fst (M2TransformerModel_prepare_beamsearch_decoder_input self d out) = Inr di"
    from r show "dec_attn_embs di \<noteq> None \<and> dec_attn_emb_mask di \<noteq> None \<and>
          dec_attn_embs di =
            out_attn_embs (snd (M2TransformerModel_prepare_beamsearch_decoder_input self d out)) \<and>
          dec_attn_emb_mask di =
            out_attn_emb_mask (snd (M2TransformerModel_prepare_beamsearch_decoder_input self d out)) \<and>
          (t = 0 \<longrightarrow>
             expanded_from (in_attn_embs d) i b (dec_attn_embs di) \<and>
             expanded_from (in_attn_emb_mask d) i b (dec_attn_emb_mask di))"
      using M2_beam_first [OF r _ i b] t
      by (elim M2_beam_Inr) simp
  qed
next
  show ?E
  proof (intro allI impI)
    fix di
    assume r: "fst (EventCondTransformerModel_prepare_beamsearch_decoder_input torch eself d out) = Inr di"
    then obtain di1 ev where
      p: "fst (TransformerModel_prepare_beamsearch_decoder_input eself d out) = Inr di1"
      and di: "di = di1\<lparr>dec_events := Some ev\<rparr>"
      and ev: "out_events (snd (EventCondTransformerModel_prepare_beamsearch_decoder_input torch eself d out)) = Some ev"
      by (rule Event_beam_Inr)
    from p show "dec_attn_embs di \<noteq> None \<and> dec_attn_emb_lens di \<noteq> None \<and> dec_events di \<noteq> None \<and>
          dec_attn_embs di =
            out_attn_embs (snd (EventCondTransformerModel_prepare_beamsearch_decoder_input torch eself d out)) \<and>
          dec_attn_emb_lens di =
            out_attn_emb_lens (snd (EventCondTransformerModel_prepare_beamsearch_decoder_input torch eself d out)) \<and>
          dec_events di =
            out_events (snd (EventCondTransformerModel_prepare_beamsearch_decoder_input torch eself d out)) \<and>
          (t = 0 \<longrightarrow>
             expanded_from (in_attn_embs d) i b (dec_attn_embs di) \<and>
             expanded_from (in_attn_emb_lens d) i b (dec_attn_emb_lens di) \<and>
             expanded_from (encoded_events torch (label_encoder eself) d) i b (dec_events di))"
      using Transformer_beam_first [OF p _ i b] Event_beam_first [OF r _ i b] t di ev
      by (elim Transformer_beam_Inr) (simp add: Event_beam_parent_slots)
  qed
next
  show ?K
  proof (intro allI impI)
    fix di
    assume r: "fst (KeywordCondTransformerModel_prepare_beamsearch_decoder_input self d out) = Inr di"
    then obtain di1 kw where
      p: "fst (TransformerModel_prepare_beamsearch_decoder_input self d out) = Inr di1"
      and di: "di = di1\<lparr>dec_keywords := Some kw\<rparr>"
      and kw: "out_keywords (snd (KeywordCondTransformerModel_prepare_beamsearch_decoder_input self d out)) = Some kw"
      by (rule Keyword_beam_Inr)
    from p show "dec_attn_embs di \<noteq> None \<and> dec_attn_emb_lens di \<noteq> None \<and> dec_keywords di \<noteq> None \<and>
          dec_attn_embs di =
            out_attn_embs (snd (KeywordCondTransformerModel_prepare_beamsearch_decoder_input self d out)) \<and>
          dec_attn_emb_lens di =
            out_attn_emb_lens (snd (KeywordCondTransformerModel_prepare_beamsearch_decoder_input self d out)) \<and>
          dec_keywords di =
            out_keywords (snd (KeywordCondTransformerModel_prepare_beamsearch_decoder_input self d out)) \<and>
          (t = 0 \<longrightarrow>
             expanded_from (in_attn_embs d) i b (dec_attn_embs di) \<and>
             expanded_from (in_attn_emb_lens d) i b (dec_attn_emb_lens di) \<and>
             expanded_from (in_keywords d) i b (dec_keywords di))"
      using Transformer_beam_first [OF p _ i b] Keyword_beam_first [OF r _ i b] t di kw
      by (elim Transformer_beam_Inr) (simp add: Keyword_beam_parent_slots)
  qed
qed

lemma expanded_fromD:
  assumes "expanded_from src i b (Some r)"
  obtains x xi where "src = Some x" "py_index x i = Inr xi" "repeat_tensor xi b = Inr r"
  using assms by (auto simp: expanded_from_def split: option.splits sum.splits)

lemma Transformer_beam_first_returns:
  assumes c: "step_context d = Inr (0, i, b)"
    and a: "expanded_from (in_attn_embs d) i b (Some ra)"
    and l: "expanded_from (in_attn_emb_lens d) i b (Some rl)"
  shows "TransformerModel_prepare_beamsearch_decoder_input self d out =
     (Inr (empty_decoder_input
             \<lparr>dec_attn_embs := Some ra, dec_attn_emb_lens := Some rl,
              dec_word := Some (start_column (start_idx self) b),
              dec_caps_padding_mask :=
                Some (eq_mask (start_column (start_idx self) b) (pad_idx self))\<rparr>),
      out\<lparr>out_attn_embs := Some ra, out_attn_emb_lens := Some rl\<rparr>)"
  using a l
  by (elim expanded_fromD)
    (simp add: TransformerModel_prepare_beamsearch_decoder_input_def c beam_input_word_def)

lemma M2_beam_first_returns:
  assumes c: "step_context d = Inr (0, i, b)"
    and a: "expanded_from (in_attn_embs d) i b (Some ra)"
    and m: "expanded_from (in_attn_emb_mask d) i b (Some rm)"
  shows "M2TransformerModel_prepare_beamsearch_decoder_input self d out =
     (Inr (empty_decoder_input
             \<lparr>dec_attn_embs := Some ra, dec_attn_emb_mask := Some rm,
              dec_word := Some (start_column (start_idx self) b)\<rparr>),
      out\<lparr>out_attn_embs := Some ra, out_attn_emb_mask := Some rm\<rparr>)"
  using a m
  by (elim expanded_fromD)
    (simp add: M2TransformerModel_prepare_beamsearch_decoder_input_def c beam_input_word_def)

lemma Event_beam_first_returns:
  assumes c: "step_context d = Inr (0, i, b)"
    and a: "expanded_from (in_attn_embs d) i b (Some ra)"
    and l: "expanded_from (in_attn_emb_lens d) i b (Some rl)"
    and e: "expanded_from (encoded_events torch (label_encoder self) d) i b (Some re)"
  shows "EventCondTransformerModel_prepare_beamsearch_decoder_input torch self d out =
     (Inr (empty_decoder_input
             \<lparr>dec_attn_embs := Some ra, dec_attn_emb_lens := Some rl,
              dec_word := Some (start_column (start_idx self) b),
              dec_caps_padding_mask :=
                Some (eq_mask (start_column (start_idx self) b) (pad_idx self)),
              dec_events := Some re\<rparr>),
      out\<lparr>out_attn_embs := Some ra, out_attn_emb_lens := Some rl, out_events := Some re\<rparr>)"
  using e
  by (elim expanded_fromD)
    (auto simp: EventCondTransformerModel_prepare_beamsearch_decoder_input_def c
      Transformer_beam_first_returns [OF c a l] encoded_events_def
      split: option.splits sum.splits)

lemma Keyword_beam_first_returns:
  assumes c: "step_context d = Inr (0, i, b)"
    and a: "expanded_from (in_attn_embs d) i b (Some ra)"
    and l: "expanded_from (in_attn_emb_lens d) i b (Some rl)"
    and k: "expanded_from (in_keywords d) i b (Some rk)"
  shows "KeywordCondTransformerModel_prepare_beamsearch_decoder_input self d out =
     (Inr (empty_decoder_input
             \<lparr>dec_attn_embs := Some ra, dec_attn_emb_lens := Some rl,
              dec_word := Some (start_column (start_idx self) b),
              dec_caps_padding_mask :=
                Some (eq_mask (start_column (start_idx self) b) (pad_idx self)),
              dec_keywords := Some rk\<rparr>),
      out\<lparr>out_attn_embs := Some ra, out_attn_emb_lens := Some rl, out_keywords := Some rk\<rparr>)"
  using k
  by (elim expanded_fromD)
    (simp add: KeywordCondTransformerModel_prepare_beamsearch_decoder_input_def c
      Transformer_beam_first_returns [OF c a l])

lemma Transformer_beam_later_returns:
  assumes c: "step_context d = Inr (t, i, b)" and t: "t \<noteq> 0"
    and "out_attn_embs out = Some a" "out_attn_emb_lens out = Some l"
    and "out_seqs out = Some seqs" "length seqs = nat b" "in_attn_embs d = Some x"
  shows "TransformerModel_prepare_beamsearch_decoder_input self d out =
     (Inr (empty_decoder_input
             \<lparr>dec_attn_embs := Some a, dec_attn_emb_lens := Some l,
              dec_word := Some (map ((#) (start_idx self)) seqs),
              dec_caps_padding_mask :=
                Some (eq_mask (map ((#) (start_idx self)) seqs) (pad_idx self))\<rparr>),
      out)"
proof -
  have "in_t d \<noteq> Some 0"
    using c t by (simp add: step_context_Inr_iff)
  then show ?thesis
    using Transformer_beam_later [OF c t, of self out] Transformer_beam_state_later [of d self out]
      assms(3-)
    by (simp add: prod_eq_iff)
qed

lemma M2_beam_later_returns:
  assumes c: "step_context d = Inr (t, i, b)" and t: "t \<noteq> 0"
    and "out_attn_embs out = Some a" "out_attn_emb_mask out = Some m"
    and "out_seqs out = Some seqs" "length seqs = nat b"
  shows "M2TransformerModel_prepare_beamsearch_decoder_input self d out =
     (Inr (empty_decoder_input
             \<lparr>dec_attn_embs := Some a, dec_attn_emb_mask := Some m,
              dec_word := Some (map ((#) (start_idx self)) seqs)\<rparr>),
      out)"
proof -
  have "in_t d \<noteq> Some 0"
    using c t by (simp add: step_context_Inr_iff)
  then show ?thesis
    using M2_beam_later [OF c t, of self out] M2_beam_state_later [of d self out] assms(3-)
    by (simp add: prod_eq_iff)
qed

lemma Event_beam_later_returns:
  assumes c: "step_context d = Inr (t, i, b)" and t: "t \<noteq> 0"
    and p: "out_attn_embs out = Some a" "out_attn_emb_lens out = Some l"
      "out_seqs out = Some seqs" "length seqs = nat b" "in_attn_embs d = Some x"
    and e: "out_events out = Some ev"
  shows "EventCondTransformerModel_prepare_beamsearch_decoder_input torch self d out =
     (Inr (empty_decoder_input
             \<lparr>dec_attn_embs := Some a, dec_attn_emb_lens := Some l,
              dec_word := Some (map ((#) (start_idx self)) seqs),
              dec_caps_padding_mask :=
                Some (eq_mask (map ((#) (start_idx self)) seqs) (pad_idx self)),
              dec_events := Some ev\<rparr>),
      out)"
  using t e
  by (simp add: EventCondTransformerModel_prepare_beamsearch_decoder_input_def c
      Transformer_beam_later_returns [OF c t p])

lemma Keyword_beam_later_returns:
  assumes c: "step_context d = Inr (t, i, b)" and t: "t \<noteq> 0"
    and p: "out_attn_embs out = Some a" "out_attn_emb_lens out = Some l"
      "out_seqs out = Some seqs" "length seqs = nat b" "in_attn_embs d = Some x"
    and k: "out_keywords out = Some kw"
  shows "KeywordCondTransformerModel_prepare_beamsearch_decoder_input self d out =
     (Inr (empty_decoder_input
             \<lparr>dec_attn_embs := Some a, dec_attn_emb_lens := Some l,
              dec_word := Some (map ((#) (start_idx self)) seqs),
              dec_caps_padding_mask :=
                Some (eq_mask (map ((#) (start_idx self)) seqs) (pad_idx self)),
              dec_keywords := Some kw\<rparr>),
      out)"
  using t k
  by (simp add: KeywordCondTransformerModel_prepare_beamsearch_decoder_input_def c
      Transformer_beam_later_returns [OF c t p])

subsection \<open>What the step-wise preparation returns\<close>

lemma step_word_when_returned:
  assumes r: "r = TransformerModel_prepare_decoder_input self d out rng \<or>
              r = M2TransformerModel_prepare_decoder_input self d out rng"
    and ok: "fst r = Inr di" and t: "in_t d = Some t" and m: "in_mode d = Some mode"
  shows "snd r = (if mode = ''train'' then stl rng else rng) \<and>
     (mode = ''train'' \<longrightarrow>
        (\<exists>p. in_ss_ratio d = Some p \<and>
           (shd rng < p \<longrightarrow>
              (\<exists>caps. in_caps d = Some caps \<and> dec_word di = Some (cols_to (t + 1) caps) \<and>
                 (0 \<le> t \<and> (\<forall>row\<in>set caps. t + 1 \<le> int (length row)) \<longrightarrow>
                    (\<forall>row\<in>set (cols_to (t + 1) caps). int (length row) = t + 1)))) \<and>
           (\<not> shd rng < p \<longrightarrow>
              (\<exists>embs. in_attn_embs d = Some embs \<and>
                 start_then_generated (start_idx self) (length embs) t out (dec_word di))))) \<and>
     (mode \<noteq> ''train'' \<longrightarrow>
        (\<exists>embs. in_attn_embs d = Some embs \<and>
           start_then_generated (start_idx self) (length embs) t out (dec_word di)))"
  using r
proof
  assume e: "r = TransformerModel_prepare_decoder_input self d out rng"
  with ok have "fst (TransformerModel_prepare_decoder_input self d out rng) = Inr di"
    by simp
  then show ?thesis
  proof (rule Transformer_step_Inr)
    fix t' word
    assume "in_t d = Some t'"
      and w: "fst (determine_input_word self d out t' rng) = Inr word"
      and s: "snd (TransformerModel_prepare_decoder_input self d out rng) =
        snd (determine_input_word self d out t' rng)"
      and dw: "dec_word di = Some word"
    with t have "t' = t" by simp
    with w s dw show ?thesis
      using step_word_rule [OF _ m, of self out t rng word di] determine_input_word_rng [OF m, of self out t rng] e
      by simp
  qed
next
  assume e: "r = M2TransformerModel_prepare_decoder_input self d out rng"
  with ok have "fst (M2TransformerModel_prepare_decoder_input self d out rng) = Inr di"
    by simp
  then show ?thesis
  proof (rule M2_step_Inr)
    fix t' word
    assume "in_t d = Some t'"
      and w: "fst (determine_input_word self d out t' rng) = Inr word"
      and s: "snd (M2TransformerModel_prepare_decoder_input self d out rng) =
        snd (determine_input_word self d out t' rng)"
      and dw: "dec_word di = Some word"
    with t have "t' = t" by simp
    with w s dw show ?thesis
      using step_word_rule [OF _ m, of self out t rng word di] determine_input_word_rng [OF m, of self out t rng] e
      by simp
  qed
qed

lemma generated_input_word_returns:
  "in_attn_embs d = Some embs \<Longrightarrow>
   start_then_generated (start_idx self) (length embs) t out (Some word) \<Longrightarrow>
   generated_input_word self d out t = Inr word"
  by (simp add: generated_input_word_Inr)

lemma determine_input_word_forced:
  "in_mode d = Some ''train'' \<Longrightarrow> in_ss_ratio d = Some p \<Longrightarrow> shd rng < p \<Longrightarrow>
   in_caps d = Some caps \<Longrightarrow>
   determine_input_word self d out t rng = (Inr (cols_to (t + 1) caps), stl rng)"
  by (simp add: determine_input_word_def)

lemma determine_input_word_generated:
  "in_mode d = Some mode \<Longrightarrow>
   (mode = ''train'' \<and> in_ss_ratio d = Some p \<and> \<not> shd rng < p) \<or> mode \<noteq> ''train'' \<Longrightarrow>
   determine_input_word self d out t rng =
     (generated_input_word self d out t, if mode = ''train'' then stl rng else rng)"
  by (auto simp: determine_input_word_def)

lemma Transformer_step_returns:
  "in_attn_embs d = Some embs \<Longrightarrow> in_attn_emb_lens d = Some lens \<Longrightarrow> in_t d = Some t \<Longrightarrow>
   determine_input_word self d out t rng = (Inr word, rng') \<Longrightarrow>
   TransformerModel_prepare_decoder_input self d out rng =
     (Inr (primary_input embs lens word (pad_idx self)), rng')"
  by (simp add: TransformerModel_prepare_decoder_input_def primary_input_def)

lemma M2_step_returns:
  "in_attn_embs d = Some embs \<Longrightarrow> in_attn_emb_mask d = Some msk \<Longrightarrow> in_t d = Some t \<Longrightarrow>
   determine_input_word self d out t rng = (Inr word, rng') \<Longrightarrow>
   M2TransformerModel_prepare_decoder_input self d out rng =
     (Inr (m2_input embs msk word), rng')"
  by (simp add: M2TransformerModel_prepare_decoder_input_def m2_input_def)

lemma step_forced_returns:
  assumes "in_t d = Some t" "in_mode d = Some ''train''" "in_ss_ratio d = Some p" "shd rng < p"
    "in_caps d = Some caps" "in_attn_embs d = Some embs"
  shows "(\<forall>lens. in_attn_emb_lens d = Some lens \<longrightarrow>
            TransformerModel_prepare_decoder_input self d out rng =
              (Inr (primary_input embs lens (cols_to (t + 1) caps) (pad_idx self)), stl rng)) \<and>
         (\<forall>msk. in_attn_emb_mask d = Some msk \<longrightarrow>
            M2TransformerModel_prepare_decoder_input self d out rng =
              (Inr (m2_input embs msk (cols_to (t + 1) caps)), stl rng))"
  using assms
  by (simp add: Transformer_step_returns M2_step_returns determine_input_word_forced)

lemma step_generated_returns:
  assumes t: "in_t d = Some t" and m: "in_mode d = Some mode"
    and g: "(mode = ''train'' \<and> in_ss_ratio d = Some p \<and> \<not> shd rng < p) \<or> mode \<noteq> ''train''"
    and e: "in_attn_embs d = Some embs"
    and w: "start_then_generated (start_idx self) (length embs) t out (Some word)"
  shows "(\<forall>lens. in_attn_emb_lens d = Some lens \<longrightarrow>
            TransformerModel_prepare_decoder_input self d out rng =
              (Inr (primary_input embs lens word (pad_idx self)),
               if mode = ''train'' then stl rng else rng)) \<and>
         (\<forall>msk. in_attn_emb_mask d = Some msk \<longrightarrow>
            M2TransformerModel_prepare_decoder_input self d out rng =
              (Inr (m2_input embs msk word), if mode = ''train'' then stl rng else rng))"
proof -
  have "determine_input_word self d out t rng =
      (Inr word, if mode = ''train'' then stl rng else rng)"
    using determine_input_word_generated [OF m g, of self out t]
      generated_input_word_returns [OF e w]
    by simp
  then show ?thesis
    using t e by (simp add: Transformer_step_returns M2_step_returns)
qed

subsection \<open>The records that carry a padding mask\<close>

lemma Transformer_seq_forward_returns:
  assumes "in_caps d = Some caps" "in_attn_embs d = Some embs" "in_attn_emb_lens d = Some lens"
  shows "TransformerModel_seq_forward self d calls =
     (forward (decoder self) (primary_input embs lens (map butlast caps) (pad_idx self)),
      calls @ [primary_input embs lens (map butlast caps) (pad_idx self)])"
  by (simp add: TransformerModel_seq_forward_def call_decoder_def primary_input_def
        Transformer_seq_forward_input_eq [OF assms] empty_decoder_input_def)

lemma Keyword_seq_forward_returns:
  assumes "in_caps d = Some caps" "in_attn_embs d = Some embs" "in_attn_emb_lens d = Some lens"
    "in_keywords d = Some kw"
  shows "KeywordCondTransformerModel_seq_forward self d calls =
     (forward (decoder self)
        ((primary_input embs lens (map butlast caps) (pad_idx self))\<lparr>dec_keywords := Some kw\<rparr>),
      calls @ [(primary_input embs lens (map butlast caps) (pad_idx self))
                 \<lparr>dec_keywords := Some kw\<rparr>])"
  by (simp add: KeywordCondTransformerModel_seq_forward_def call_decoder_def primary_input_def
        Keyword_seq_forward_input_eq [OF assms] empty_decoder_input_def)

lemma Transformer_seq_forward_logged:
  "snd (TransformerModel_seq_forward self d calls) = calls @ [di] \<Longrightarrow>
   mask_marks_pad (pad_idx self) di"
  by (cases "TransformerModel_seq_forward_input self d")
    (auto simp: TransformerModel_seq_forward_def call_decoder_def
      dest: Transformer_seq_input_mask)

lemma Keyword_seq_forward_logged:
  "snd (KeywordCondTransformerModel_seq_forward self d calls) = calls @ [di] \<Longrightarrow>
   mask_marks_pad (pad_idx self) di"
  by (cases "KeywordCondTransformerModel_seq_forward_input self d")
    (auto simp: KeywordCondTransformerModel_seq_forward_def call_decoder_def
      dest: Keyword_seq_input_mask)

lemma mask_marks_pad_primary_input [simp]:
  "mask_marks_pad pad (primary_input embs lens word pad)"
  by (simp add: mask_marks_pad_def primary_input_def empty_decoder_input_def)

lemma Event_step_returns:
  "TransformerModel_prepare_decoder_input self d out rng = (Inr di, rng') \<Longrightarrow>
   in_events d = Some ev \<Longrightarrow> EventEncoder_forward torch (label_encoder self) ev = Inr emb \<Longrightarrow>
   EventCondTransformerModel_prepare_decoder_input torch self d out rng =
     (Inr (di\<lparr>dec_events := Some emb\<rparr>), rng')"
  by (simp add: EventCondTransformerModel_prepare_decoder_input_def)

lemma Keyword_step_returns:
  "TransformerModel_prepare_decoder_input self d out rng = (Inr di, rng') \<Longrightarrow>
   in_keywords d = Some kw \<Longrightarrow>
   KeywordCondTransformerModel_prepare_decoder_input self d out rng =
     (Inr (di\<lparr>dec_keywords := Some kw\<rparr>), rng')"
  by (simp add: KeywordCondTransformerModel_prepare_decoder_input_def)

section \<open>The claims\<close>

text \<open>
  C1, as the code has it. When \<^verbatim>\<open>prepare_beamsearch_decoder_input\<close> of the primary or the
  M2 variant returns for beam width \<open>b\<close>: at \<open>t = 0\<close> the word tensor is the start token
  repeated \<open>b\<close> times as a column; at any other \<open>t\<close> it is the start token put in front
  of every row of the whole of \<^verbatim>\<open>output_i["seqs"]\<close>, which has \<open>b\<close> rows. No slice
  \<^verbatim>\<open>[:, :t]\<close> is taken; the two agree when no row of \<open>seqs\<close> is longer than \<open>t\<close>.
\<close>

theorem beam_word_is_start_then_seqs:
  assumes "fst (TransformerModel_prepare_beamsearch_decoder_input self d out) = Inr di \<or>
           fst (M2TransformerModel_prepare_beamsearch_decoder_input self d out) = Inr di"
    and "in_t d = Some t" and "in_beam_size d = Some b"
  shows "(t = 0 \<longrightarrow> dec_word di = Some (replicate (nat b) [start_idx self])) \<and>
     (t \<noteq> 0 \<longrightarrow>
        (\<exists>seqs. out_seqs out = Some seqs \<and> length seqs = nat b \<and>
           dec_word di = Some (map ((#) (start_idx self)) seqs) \<and>
           ((\<forall>r\<in>set seqs. int (length r) \<le> t) \<longrightarrow>
              torch_cat (start_column (start_idx self) b) (cols_to t seqs) =
              Inr (map ((#) (start_idx self)) seqs))))"
  using assms(1)
proof
  assume "fst (TransformerModel_prepare_beamsearch_decoder_input self d out) = Inr di"
  then show ?thesis
  proof (rule Transformer_beam_Inr)
    fix t' i b' word
    assume "step_context d = Inr (t', i, b')"
      and w: "beam_input_word self t' b'
            (snd (TransformerModel_prepare_beamsearch_decoder_input self d out)) = Inr word"
      and dw: "dec_word di = Some word"
    then have "t' = t" "b' = b"
      using assms(2,3) by (simp_all add: step_context_Inr_iff)
    with w dw show ?thesis
      using beam_word_of_step [OF _ Transformer_beam_seqs] by blast
  qed
next
  assume "fst (M2TransformerModel_prepare_beamsearch_decoder_input self d out) = Inr di"
  then show ?thesis
  proof (rule M2_beam_Inr)
    fix t' i b' word
    assume "step_context d = Inr (t', i, b')"
      and w: "beam_input_word self t' b'
            (snd (M2TransformerModel_prepare_beamsearch_decoder_input self d out)) = Inr word"
      and dw: "dec_word di = Some word"
    then have "t' = t" "b' = b"
      using assms(2,3) by (simp_all add: step_context_Inr_iff)
    with w dw show ?thesis
      using beam_word_of_step [OF _ M2_beam_seqs] by blast
  qed
qed

text \<open>
  The theorem at \<open>t = 1\<close> on the concrete batch, where each beam holds one token.
\<close>

theorem beam_word_witness:
  "fst (TransformerModel_prepare_beamsearch_decoder_input example_model
        (example_input\<lparr>in_t := Some 1\<rparr>) example_beam_state) = Inr example_beam_input
   \<and> dec_word example_beam_input = Some (map ((#) 1) [[5], [7]])
   \<and> torch_cat (start_column 1 2) (cols_to 1 [[5], [7]]) = Inr (map ((#) 1) [[5], [7 :: int]])"
proof -
  have h: "fst (TransformerModel_prepare_beamsearch_decoder_input example_model
        (example_input\<lparr>in_t := Some 1\<rparr>) example_beam_state) = Inr example_beam_input \<or>
     fst (M2TransformerModel_prepare_beamsearch_decoder_input example_model
        (example_input\<lparr>in_t := Some 1\<rparr>) example_beam_state) = Inr example_beam_input"
    by (simp add: TransformerModel_prepare_beamsearch_decoder_input_def batch_eval)
  have t: "in_t (example_input\<lparr>in_t := Some 1\<rparr>) = Some 1"
    and b: "in_beam_size (example_input\<lparr>in_t := Some 1\<rparr>) = Some 2"
    by (simp_all add: example_input_def)
  from beam_word_is_start_then_seqs [OF h t b] show ?thesis
    by (simp add: TransformerModel_prepare_beamsearch_decoder_input_def batch_eval)
qed

text \<open>
  C1 as the spec states it fails: at \<open>t = 1\<close> with two tokens per beam in
  \<^verbatim>\<open>output_i["seqs"]\<close> the code returns both tokens after the start token, and the
  claimed \<^verbatim>\<open>seqs[:, :1]\<close> would give one.
\<close>

theorem beam_word_not_sliced_counterexample:
  "map_sum id dec_word
     (fst (TransformerModel_prepare_beamsearch_decoder_input example_model
        (example_input\<lparr>in_t := Some 1\<rparr>)
        (example_beam_state\<lparr>out_seqs := Some [[5, 6], [7, 8]]\<rparr>))) =
     Inr (Some [[1, 5, 6], [1, 7, 8]])
   \<and> torch_cat (start_column 1 2) (cols_to 1 [[5, 6], [7, 8]]) = Inr [[1, 5], [1, 7 :: int]]"
  by (simp add: TransformerModel_prepare_beamsearch_decoder_input_def batch_eval)

text \<open>
  C2. In every variant the step at \<open>t \<noteq> 0\<close> leaves the beam state as it was, whatever
  it returns. Whenever a step returns, the attention tensors and the variant's
  conditioning tensor in the decoder input are the slots of the beam state it leaves
  behind; at \<open>t = 0\<close> each of them is \<^verbatim>\<open>repeat_tensor\<close> of sample \<open>i\<close> of the per-sample
  tensor for the beam width. And the step does return: at \<open>t = 0\<close>, when the per-sample
  tensors are present, sample \<open>i\<close> exists and \<^verbatim>\<open>repeat_tensor\<close> returns, every variant
  returns the replicated tensors and leaves them in the beam state; at \<open>t \<noteq> 0\<close>, when the
  cached tensors and \<open>seqs\<close> with one row per beam are in the beam state, every variant
  returns the cached tensors and the beam state as given.
\<close>

theorem cache_written_at_first_step_only:
  assumes t: "in_t d = Some t" and i: "in_sample_idx d = Some i" and b: "in_beam_size d = Some b"
  shows
    "(t \<noteq> 0 \<longrightarrow>
        snd (TransformerModel_prepare_beamsearch_decoder_input self d out) = out \<and>
        snd (M2TransformerModel_prepare_beamsearch_decoder_input self d out) = out \<and>
        snd (EventCondTransformerModel_prepare_beamsearch_decoder_input torch eself d out) = out \<and>
        snd (KeywordCondTransformerModel_prepare_beamsearch_decoder_input self d out) = out)
     \<and> (\<forall>di. fst (TransformerModel_prepare_beamsearch_decoder_input self d out) = Inr di \<longrightarrow>
          dec_attn_embs di \<noteq> None \<and> dec_attn_emb_lens di \<noteq> None \<and>
          dec_attn_embs di =
            out_attn_embs (snd (TransformerModel_prepare_beamsearch_decoder_input self d out)) \<and>
          dec_attn_emb_lens di =
            out_attn_emb_lens (snd (TransformerModel_prepare_beamsearch_decoder_input self d out)) \<and>
          (t = 0 \<longrightarrow>
             expanded_from (in_attn_embs d) i b (dec_attn_embs di) \<and>
             expanded_from (in_attn_emb_lens d) i b (dec_attn_emb_lens di)))
     \<and> (\<forall>di. fst (M2TransformerModel_prepare_beamsearch_decoder_input self d out) = Inr di \<longrightarrow>
          dec_attn_embs di \<noteq> None \<and> dec_attn_emb_mask di \<noteq> None \<and>
          dec_attn_embs di =
            out_attn_embs (snd (M2TransformerModel_prepare_beamsearch_decoder_input self d out)) \<and>
          dec_attn_emb_mask di =
            out_attn_emb_mask (snd (M2TransformerModel_prepare_beamsearch_decoder_input self d out)) \<and>
          (t = 0 \<longrightarrow>
             expanded_from (in_attn_embs d) i b (dec_attn_embs di) \<and>
             expanded_from (in_attn_emb_mask d) i b (dec_attn_emb_mask di)))
     \<and> (\<forall>di. fst (EventCondTransformerModel_prepare_beamsearch_decoder_input torch eself d out) = Inr di \<longrightarrow>
          dec_attn_embs di \<noteq> None \<and> dec_attn_emb_lens di \<noteq> None \<and> dec_events di \<noteq> None \<and>
          dec_attn_embs di =
            out_attn_embs (snd (EventCondTransformerModel_prepare_beamsearch_decoder_input torch eself d out)) \<and>
          dec_attn_emb_lens di =
            out_attn_emb_lens (snd (EventCondTransformerModel_prepare_beamsearch_decoder_input torch eself d out)) \<and>
          dec_events di =
            out_events (snd (EventCondTransformerModel_prepare_beamsearch_decoder_input torch eself d out)) \<and>
          (t = 0 \<longrightarrow>
             expanded_from (in_attn_embs d) i b (dec_attn_embs di) \<and>
             expanded_from (in_attn_emb_lens d) i b (dec_attn_emb_lens di) \<and>
             expanded_from (encoded_events torch (label_encoder eself) d) i b (dec_events di)))
     \<and> (\<forall>di. fst (KeywordCondTransformerModel_prepare_beamsearch_decoder_input self d out) = Inr di \<longrightarrow>
          dec_attn_embs di \<noteq> None \<and> dec_attn_emb_lens di \<noteq> None \<and> dec_keywords di \<noteq> None \<and>
          dec_attn_embs di =
            out_attn_embs (snd (KeywordCondTransformerModel_prepare_beamsearch_decoder_input self d out)) \<and>
          dec_attn_emb_lens di =
            out_attn_emb_lens (snd (KeywordCondTransformerModel_prepare_beamsearch_decoder_input self d out)) \<and>
          dec_keywords di =
            out_keywords (snd (KeywordCondTransformerModel_prepare_beamsearch_decoder_input self d out)) \<and>
          (t = 0 \<longrightarrow>
             expanded_from (in_attn_embs d) i b (dec_attn_embs di) \<and>
             expanded_from (in_attn_emb_lens d) i b (dec_attn_emb_lens di) \<and>
             expanded_from (in_keywords d) i b (dec_keywords di)))
     \<and> (t = 0 \<and> expanded_from (in_attn_embs d) i b (Some ra) \<and>
        expanded_from (in_attn_emb_lens d) i b (Some rl) \<longrightarrow>
          TransformerModel_prepare_beamsearch_decoder_input self d out =
            (Inr (primary_input ra rl (start_column (start_idx self) b) (pad_idx self)),
             out\<lparr>out_attn_embs := Some ra, out_attn_emb_lens := Some rl\<rparr>) \<and>
          (\<forall>re. expanded_from (encoded_events torch (label_encoder eself) d) i b (Some re) \<longrightarrow>
             EventCondTransformerModel_prepare_beamsearch_decoder_input torch eself d out =
               (Inr ((primary_input ra rl (start_column (start_idx eself) b) (pad_idx eself))
                       \<lparr>dec_events := Some re\<rparr>),
                out\<lparr>out_attn_embs := Some ra, out_attn_emb_lens := Some rl,
                    out_events := Some re\<rparr>)) \<and>
          (\<forall>rk. expanded_from (in_keywords d) i b (Some rk) \<longrightarrow>
             KeywordCondTransformerModel_prepare_beamsearch_decoder_input self d out =
               (Inr ((primary_input ra rl (start_column (start_idx self) b) (pad_idx self))
                       \<lparr>dec_keywords := Some rk\<rparr>),
                out\<lparr>out_attn_embs := Some ra, out_attn_emb_lens := Some rl,
                    out_keywords := Some rk\<rparr>)))
     \<and> (t = 0 \<and> expanded_from (in_attn_embs d) i b (Some ra) \<and>
        expanded_from (in_attn_emb_mask d) i b (Some rm) \<longrightarrow>
          M2TransformerModel_prepare_beamsearch_decoder_input self d out =
            (Inr (m2_input ra rm (start_column (start_idx self) b)),
             out\<lparr>out_attn_embs := Some ra, out_attn_emb_mask := Some rm\<rparr>))
     \<and> (t \<noteq> 0 \<and> out_attn_embs out = Some a \<and> out_attn_emb_lens out = Some l \<and>
        out_seqs out = Some seqs \<and> length seqs = nat b \<and> in_attn_embs d = Some x \<longrightarrow>
          TransformerModel_prepare_beamsearch_decoder_input self d out =
            (Inr (primary_input a l (map ((#) (start_idx self)) seqs) (pad_idx self)), out) \<and>
          (\<forall>ev. out_events out = Some ev \<longrightarrow>
             EventCondTransformerModel_prepare_beamsearch_decoder_input torch eself d out =
               (Inr ((primary_input a l (map ((#) (start_idx eself)) seqs) (pad_idx eself))
                       \<lparr>dec_events := Some ev\<rparr>), out)) \<and>
          (\<forall>kw. out_keywords out = Some kw \<longrightarrow>
             KeywordCondTransformerModel_prepare_beamsearch_decoder_input self d out =
               (Inr ((primary_input a l (map ((#) (start_idx self)) seqs) (pad_idx self))
                       \<lparr>dec_keywords := Some kw\<rparr>), out)))
     \<and> (t \<noteq> 0 \<and> out_attn_embs out = Some a \<and> out_attn_emb_mask out = Some m \<and>
        out_seqs out = Some seqs \<and> length seqs = nat b \<longrightarrow>
          M2TransformerModel_prepare_beamsearch_decoder_input self d out =
            (Inr (m2_input a m (map ((#) (start_idx self)) seqs)), out))"
    (is "?later \<and> ?T \<and> ?M \<and> ?E \<and> ?K \<and> ?first \<and> ?first_m2 \<and> ?later_ret \<and> ?later_m2")
proof -
  have c: "step_context d = Inr (t, i, b)"
    using t i b by (simp add: step_context_Inr_iff)
  have returned: "?later \<and> ?T \<and> ?M \<and> ?E \<and> ?K"
    by (rule beam_cache_when_returned [OF t i b])
  have first: ?first
    using c
    by (simp add: Transformer_beam_first_returns Event_beam_first_returns
          Keyword_beam_first_returns primary_input_def)
  have first_m2: ?first_m2
    using c by (simp add: M2_beam_first_returns m2_input_def)
  have later_ret: ?later_ret
    using c
    by (simp add: Transformer_beam_later_returns Event_beam_later_returns
          Keyword_beam_later_returns primary_input_def)
  have later_m2: ?later_m2
    using c by (simp add: M2_beam_later_returns m2_input_def)
  from returned first first_m2 later_ret later_m2 show ?thesis
    by (elim conjE) (intro conjI; assumption)
qed

text \<open>
  The theorem on the concrete batch, for sample 1 and two beams: the first step of the
  four variants on an empty beam state, and their step at \<open>t = 1\<close> on the beam state with
  the cache and one token per beam.
\<close>

theorem cache_witness:
  "TransformerModel_prepare_beamsearch_decoder_input example_model example_input empty_output =
     (Inr example_first_input, example_first_state)
   \<and> M2TransformerModel_prepare_beamsearch_decoder_input example_model example_input empty_output =
     (Inr (m2_input [[[1 / 4]], [[1 / 4]]] [[False], [False]] [[1], [1]]),
      empty_output\<lparr>out_attn_embs := Some [[[1 / 4]], [[1 / 4]]],
                   out_attn_emb_mask := Some [[False], [False]]\<rparr>)
   \<and> EventCondTransformerModel_prepare_beamsearch_decoder_input example_torch example_event_model
       example_input empty_output =
     (Inr (example_first_input\<lparr>dec_events := Some [[0, 1], [0, 1]]\<rparr>),
      example_first_state\<lparr>out_events := Some [[0, 1], [0, 1]]\<rparr>)
   \<and> KeywordCondTransformerModel_prepare_beamsearch_decoder_input example_model example_input
       empty_output =
     (Inr (example_first_input\<lparr>dec_keywords := Some [[1, 0], [1, 0]]\<rparr>),
      example_first_state\<lparr>out_keywords := Some [[1, 0], [1, 0]]\<rparr>)
   \<and> TransformerModel_prepare_beamsearch_decoder_input example_model
       (example_input\<lparr>in_t := Some 1\<rparr>) example_beam_state =
     (Inr example_beam_input, example_beam_state)
   \<and> M2TransformerModel_prepare_beamsearch_decoder_input example_model
       (example_input\<lparr>in_t := Some 1\<rparr>) example_beam_state =
     (Inr (m2_input [[[1 / 4]], [[1 / 4]]] [[False], [False]] [[1, 5], [1, 7]]), example_beam_state)
   \<and> EventCondTransformerModel_prepare_beamsearch_decoder_input example_torch example_event_model
       (example_input\<lparr>in_t := Some 1\<rparr>) example_beam_state =
     (Inr (example_beam_input\<lparr>dec_events := Some [[0, 1], [0, 1]]\<rparr>), example_beam_state)
   \<and> KeywordCondTransformerModel_prepare_beamsearch_decoder_input example_model
       (example_input\<lparr>in_t := Some 1\<rparr>) example_beam_state =
     (Inr (example_beam_input\<lparr>dec_keywords := Some [[1, 0], [1, 0]]\<rparr>), example_beam_state)"
proof -
  let ?d1 = "example_input\<lparr>in_t := Some 1\<rparr>"
  have first: "in_t example_input = Some 0" "in_sample_idx example_input = Some 1"
    "in_beam_size example_input = Some 2"
    by (simp_all add: example_input_def)
  have later: "in_t ?d1 = Some 1" "in_sample_idx ?d1 = Some 1" "in_beam_size ?d1 = Some 2"
    by (simp_all add: example_input_def)
  have sources:
    "expanded_from (in_attn_embs example_input) 1 2 (Some [[[1 / 4]], [[1 / 4]]])"
    "expanded_from (in_attn_emb_lens example_input) 1 2 (Some [1, 1])"
    "expanded_from (in_attn_emb_mask example_input) 1 2 (Some [[False], [False]])"
    "expanded_from (in_keywords example_input) 1 2 (Some [[1, 0], [1, 0]])"
    "expanded_from (encoded_events example_torch (label_encoder example_event_model) example_input)
       1 2 (Some [[0, 1], [0, 1]])"
    by (simp_all add: expanded_from_def encoded_events_def EventEncoder_forward_def
          example_torch_def example_event_model_def batch_eval)
  have cached:
    "out_attn_embs example_beam_state = Some [[[1 / 4]], [[1 / 4]]]"
    "out_attn_emb_lens example_beam_state = Some [1, 1]"
    "out_attn_emb_mask example_beam_state = Some [[False], [False]]"
    "out_events example_beam_state = Some [[0, 1], [0, 1]]"
    "out_keywords example_beam_state = Some [[1, 0], [1, 0]]"
    "out_seqs example_beam_state = Some [[5], [7]]" "length [[5], [7 :: int]] = nat 2"
    "in_attn_embs ?d1 = Some [[[1 / 2]], [[1 / 4]]]"
    by (simp_all add: example_beam_state_def example_input_def)
  note at_first = cache_written_at_first_step_only
    [OF first, where self = example_model and out = empty_output and torch = example_torch
      and eself = example_event_model and ra = "[[[1 / 4]], [[1 / 4]]]" and rl = "[1, 1]"
      and rm = "[[False], [False]]"]
  note at_later = cache_written_at_first_step_only
    [OF later, where self = example_model and out = example_beam_state and torch = example_torch
      and eself = example_event_model and a = "[[[1 / 4]], [[1 / 4]]]" and l = "[1, 1]"
      and m = "[[False], [False]]" and seqs = "[[5], [7]]" and x = "[[[1 / 2]], [[1 / 4]]]"]
  have one: "TransformerModel_prepare_beamsearch_decoder_input example_model example_input
      empty_output = (Inr example_first_input, example_first_state)"
    and two: "M2TransformerModel_prepare_beamsearch_decoder_input example_model example_input
      empty_output =
      (Inr (m2_input [[[1 / 4]], [[1 / 4]]] [[False], [False]] [[1], [1]]),
       empty_output\<lparr>out_attn_embs := Some [[[1 / 4]], [[1 / 4]]],
                    out_attn_emb_mask := Some [[False], [False]]\<rparr>)"
    and three: "EventCondTransformerModel_prepare_beamsearch_decoder_input example_torch
      example_event_model example_input empty_output =
      (Inr (example_first_input\<lparr>dec_events := Some [[0, 1], [0, 1]]\<rparr>),
       example_first_state\<lparr>out_events := Some [[0, 1], [0, 1]]\<rparr>)"
    and four: "KeywordCondTransformerModel_prepare_beamsearch_decoder_input example_model
      example_input empty_output =
      (Inr (example_first_input\<lparr>dec_keywords := Some [[1, 0], [1, 0]]\<rparr>),
       example_first_state\<lparr>out_keywords := Some [[1, 0], [1, 0]]\<rparr>)"
    using at_first sources
    by (simp_all add: primary_input_def example_first_input_def example_first_state_def
          example_model_def example_event_model_def start_column_def eq_mask_def
          empty_decoder_input_def empty_output_def eval_nat_numeral)
  have five: "TransformerModel_prepare_beamsearch_decoder_input example_model ?d1
      example_beam_state = (Inr example_beam_input, example_beam_state)"
    and six: "M2TransformerModel_prepare_beamsearch_decoder_input example_model ?d1
      example_beam_state =
      (Inr (m2_input [[[1 / 4]], [[1 / 4]]] [[False], [False]] [[1, 5], [1, 7]]),
       example_beam_state)"
    and seven: "EventCondTransformerModel_prepare_beamsearch_decoder_input example_torch
      example_event_model ?d1 example_beam_state =
      (Inr (example_beam_input\<lparr>dec_events := Some [[0, 1], [0, 1]]\<rparr>), example_beam_state)"
    and eight: "KeywordCondTransformerModel_prepare_beamsearch_decoder_input example_model ?d1
      example_beam_state =
      (Inr (example_beam_input\<lparr>dec_keywords := Some [[1, 0], [1, 0]]\<rparr>), example_beam_state)"
    using at_later cached
    by (simp_all add: primary_input_def example_beam_input_def example_model_def
          example_event_model_def eq_mask_def empty_decoder_input_def)
  from one two three four five six seven eight show ?thesis
    by simp
qed

text \<open>
  C3. \<^verbatim>\<open>prepare_decoder_input\<close> of the primary and of the M2 variant decides by the rule,
  and returns by it. In mode \<^verbatim>\<open>"train"\<close> the call draws one number, and the generator it
  leaves is the tail; with the draw below \<^verbatim>\<open>ss_ratio\<close> and the captions present it
  returns the word tensor \<^verbatim>\<open>caps[:, :t+1]\<close>, whose rows have length \<open>t + 1\<close> when the
  captions are that long. With the draw not below \<^verbatim>\<open>ss_ratio\<close>, and in every other mode
  (where nothing is drawn), it returns the start-token column followed by
  \<^verbatim>\<open>output["seqs"][:, :t]\<close>, and the start-token column alone at \<open>t = 0\<close>. Whenever a
  call returns, its word tensor is the one of the rule. The choice depends on the draw of
  this call only: the next call decides by the next draw.
\<close>

theorem scheduled_sampling_decision:
  assumes t: "in_t d = Some t" and m: "in_mode d = Some mode"
  shows
    "(\<forall>r di.
        (r = TransformerModel_prepare_decoder_input self d out rng \<or>
         r = M2TransformerModel_prepare_decoder_input self d out rng) \<and> fst r = Inr di \<longrightarrow>
        snd r = (if mode = ''train'' then stl rng else rng) \<and>
        (mode = ''train'' \<longrightarrow>
           (\<exists>p. in_ss_ratio d = Some p \<and>
              (shd rng < p \<longrightarrow>
                 (\<exists>caps. in_caps d = Some caps \<and> dec_word di = Some (cols_to (t + 1) caps) \<and>
                    (0 \<le> t \<and> (\<forall>row\<in>set caps. t + 1 \<le> int (length row)) \<longrightarrow>
                       (\<forall>row\<in>set (cols_to (t + 1) caps). int (length row) = t + 1)))) \<and>
              (\<not> shd rng < p \<longrightarrow>
                 (\<exists>embs. in_attn_embs d = Some embs \<and>
                    start_then_generated (start_idx self) (length embs) t out (dec_word di))))) \<and>
        (mode \<noteq> ''train'' \<longrightarrow>
           (\<exists>embs. in_attn_embs d = Some embs \<and>
              start_then_generated (start_idx self) (length embs) t out (dec_word di))))
     \<and> (mode = ''train'' \<and> in_ss_ratio d = Some p \<and> shd rng < p \<and> in_caps d = Some caps \<and>
        in_attn_embs d = Some embs \<longrightarrow>
          (\<forall>lens. in_attn_emb_lens d = Some lens \<longrightarrow>
             TransformerModel_prepare_decoder_input self d out rng =
               (Inr (primary_input embs lens (cols_to (t + 1) caps) (pad_idx self)), stl rng)) \<and>
          (\<forall>msk. in_attn_emb_mask d = Some msk \<longrightarrow>
             M2TransformerModel_prepare_decoder_input self d out rng =
               (Inr (m2_input embs msk (cols_to (t + 1) caps)), stl rng)))
     \<and> (((mode = ''train'' \<and> in_ss_ratio d = Some p \<and> \<not> shd rng < p) \<or> mode \<noteq> ''train'') \<and>
        in_attn_embs d = Some embs \<and>
        start_then_generated (start_idx self) (length embs) t out (Some word) \<longrightarrow>
          (\<forall>lens. in_attn_emb_lens d = Some lens \<longrightarrow>
             TransformerModel_prepare_decoder_input self d out rng =
               (Inr (primary_input embs lens word (pad_idx self)),
                if mode = ''train'' then stl rng else rng)) \<and>
          (\<forall>msk. in_attn_emb_mask d = Some msk \<longrightarrow>
             M2TransformerModel_prepare_decoder_input self d out rng =
               (Inr (m2_input embs msk word), if mode = ''train'' then stl rng else rng)))"
    (is "?returned \<and> ?forced \<and> ?generated")
proof (intro conjI)
  show ?returned
  proof (intro allI impI, elim conjE)
    fix r di
    assume "r = TransformerModel_prepare_decoder_input self d out rng \<or>
        r = M2TransformerModel_prepare_decoder_input self d out rng"
      and "fst r = Inr di"
    then show "snd r = (if mode = ''train'' then stl rng else rng) \<and>
        (mode = ''train'' \<longrightarrow>
           (\<exists>p. in_ss_ratio d = Some p \<and>
              (shd rng < p \<longrightarrow>
                 (\<exists>caps. in_caps d = Some caps \<and> dec_word di = Some (cols_to (t + 1) caps) \<and>
                    (0 \<le> t \<and> (\<forall>row\<in>set caps. t + 1 \<le> int (length row)) \<longrightarrow>
                       (\<forall>row\<in>set (cols_to (t + 1) caps). int (length row) = t + 1)))) \<and>
              (\<not> shd rng < p \<longrightarrow>
                 (\<exists>embs. in_attn_embs d = Some embs \<and>
                    start_then_generated (start_idx self) (length embs) t out (dec_word di))))) \<and>
        (mode \<noteq> ''train'' \<longrightarrow>
           (\<exists>embs. in_attn_embs d = Some embs \<and>
              start_then_generated (start_idx self) (length embs) t out (dec_word di)))"
      using t m by (rule step_word_when_returned)
  qed
next
  show ?forced
  proof (intro impI, elim conjE)
    assume "mode = ''train''" and "in_ss_ratio d = Some p" and "shd rng < p"
      and "in_caps d = Some caps" and "in_attn_embs d = Some embs"
    with t m show "(\<forall>lens. in_attn_emb_lens d = Some lens \<longrightarrow>
             TransformerModel_prepare_decoder_input self d out rng =
               (Inr (primary_input embs lens (cols_to (t + 1) caps) (pad_idx self)), stl rng)) \<and>
          (\<forall>msk. in_attn_emb_mask d = Some msk \<longrightarrow>
             M2TransformerModel_prepare_decoder_input self d out rng =
               (Inr (m2_input embs msk (cols_to (t + 1) caps)), stl rng))"
      by (simp add: step_forced_returns)
  qed
next
  show ?generated
  proof (intro impI, elim conjE)
    assume "(mode = ''train'' \<and> in_ss_ratio d = Some p \<and> \<not> shd rng < p) \<or> mode \<noteq> ''train''"
      and "in_attn_embs d = Some embs"
      and "start_then_generated (start_idx self) (length embs) t out (Some word)"
    with t m show "(\<forall>lens. in_attn_emb_lens d = Some lens \<longrightarrow>
             TransformerModel_prepare_decoder_input self d out rng =
               (Inr (primary_input embs lens word (pad_idx self)),
                if mode = ''train'' then stl rng else rng)) \<and>
          (\<forall>msk. in_attn_emb_mask d = Some msk \<longrightarrow>
             M2TransformerModel_prepare_decoder_input self d out rng =
               (Inr (m2_input embs msk word), if mode = ''train'' then stl rng else rng))"
      by (rule step_generated_returns)
  qed
qed

text \<open>
  The theorem on the concrete batch. Two successive calls of the primary variant at
  \<open>t = 2\<close> in mode \<^verbatim>\<open>"train"\<close>: the first draw forces the ground truth, the second, taken
  from the generator the first call left, does not. The M2 variant with the first draw,
  and in mode \<^verbatim>\<open>"inference"\<close>, where no number is drawn; the primary variant in that mode
  at \<open>t = 0\<close>.
\<close>

theorem scheduled_sampling_witness:
  "TransformerModel_prepare_decoder_input example_model (example_input\<lparr>in_t := Some 2\<rparr>)
       example_output example_rng = (Inr example_forced_input, stl example_rng)
   \<and> TransformerModel_prepare_decoder_input example_model (example_input\<lparr>in_t := Some 2\<rparr>)
       example_output (stl example_rng) = (Inr example_sampled_input, stl (stl example_rng))
   \<and> M2TransformerModel_prepare_decoder_input example_model (example_input\<lparr>in_t := Some 2\<rparr>)
       example_output example_rng =
       (Inr (m2_input [[[1 / 2]], [[1 / 4]]] [[True], [False]] [[1, 5, 6], [1, 7, 2]]),
        stl example_rng)
   \<and> M2TransformerModel_prepare_decoder_input example_model
       (example_input\<lparr>in_t := Some 2, in_mode := Some ''inference''\<rparr>) example_output example_rng =
       (Inr (m2_input [[[1 / 2]], [[1 / 4]]] [[True], [False]] [[1, 5, 6], [1, 7, 8]]), example_rng)
   \<and> TransformerModel_prepare_decoder_input example_model
       (example_input\<lparr>in_mode := Some ''inference''\<rparr>) example_output example_rng =
       (Inr (primary_input [[[1 / 2]], [[1 / 4]]] [1, 1] [[1], [1]] 0), example_rng)"
proof -
  let ?d = "example_input\<lparr>in_t := Some 2\<rparr>"
  let ?e = "example_input\<lparr>in_t := Some 2, in_mode := Some ''inference''\<rparr>"
  let ?f = "example_input\<lparr>in_mode := Some ''inference''\<rparr>"
  have t: "in_t ?d = Some 2" and m: "in_mode ?d = Some ''train''"
    and te: "in_t ?e = Some 2" and me: "in_mode ?e = Some ''inference''"
    and tf: "in_t ?f = Some 0" and mf: "in_mode ?f = Some ''inference''"
    by (simp_all add: example_input_def)
  have keys: "in_ss_ratio ?d = Some (1 / 2)"
    "in_caps ?d = Some [[1, 5, 6, 2, 0], [1, 7, 2, 0, 0]]"
    "in_attn_embs ?d = Some [[[1 / 2]], [[1 / 4]]]" "in_attn_emb_lens ?d = Some [1, 1]"
    "in_attn_emb_mask ?d = Some [[True], [False]]"
    "in_attn_embs ?e = Some [[[1 / 2]], [[1 / 4]]]" "in_attn_emb_mask ?e = Some [[True], [False]]"
    "in_attn_embs ?f = Some [[[1 / 2]], [[1 / 4]]]" "in_attn_emb_lens ?f = Some [1, 1]"
    by (simp_all add: example_input_def)
  have draws: "shd example_rng < 1 / 2" "\<not> shd (stl example_rng) < 1 / 2"
    by (simp_all add: example_rng_def)
  have words:
    "cols_to (2 + 1) [[1, 5, 6, 2, 0], [1, 7, 2, 0, 0 :: int]] = [[1, 5, 6], [1, 7, 2]]"
    "start_then_generated (start_idx example_model) (length [[[1 / 2]], [[1 / 4 :: real]]]) 2
       example_output (Some [[1, 5, 6], [1, 7, 8]])"
    "start_then_generated (start_idx example_model) (length [[[1 / 2]], [[1 / 4 :: real]]]) 0
       example_output (Some [[1], [1]])"
    "''inference'' \<noteq> ''train''"
    by (simp_all add: start_then_generated_def batch_eval)
  note forced = scheduled_sampling_decision
    [OF t m, where self = example_model and out = example_output and rng = example_rng
      and p = "1 / 2" and caps = "[[1, 5, 6, 2, 0], [1, 7, 2, 0, 0]]"
      and embs = "[[[1 / 2]], [[1 / 4]]]"]
  note sampled = scheduled_sampling_decision
    [OF t m, where self = example_model and out = example_output and rng = "stl example_rng"
      and p = "1 / 2" and embs = "[[[1 / 2]], [[1 / 4]]]" and word = "[[1, 5, 6], [1, 7, 8]]"]
  note m2_inference = scheduled_sampling_decision
    [OF te me, where self = example_model and out = example_output and rng = example_rng
      and embs = "[[[1 / 2]], [[1 / 4]]]" and word = "[[1, 5, 6], [1, 7, 8]]"]
  note first_step = scheduled_sampling_decision
    [OF tf mf, where self = example_model and out = example_output and rng = example_rng
      and embs = "[[[1 / 2]], [[1 / 4]]]" and word = "[[1], [1]]"]
  have one: "TransformerModel_prepare_decoder_input example_model ?d example_output example_rng =
      (Inr (primary_input [[[1 / 2]], [[1 / 4]]] [1, 1] [[1, 5, 6], [1, 7, 2]]
              (pad_idx example_model)), stl example_rng)"
    and three: "M2TransformerModel_prepare_decoder_input example_model ?d example_output
      example_rng =
      (Inr (m2_input [[[1 / 2]], [[1 / 4]]] [[True], [False]] [[1, 5, 6], [1, 7, 2]]),
       stl example_rng)"
    using forced [THEN conjunct2, THEN conjunct1] keys draws words by simp_all
  have two: "TransformerModel_prepare_decoder_input example_model ?d example_output
      (stl example_rng) =
      (Inr (primary_input [[[1 / 2]], [[1 / 4]]] [1, 1] [[1, 5, 6], [1, 7, 8]]
              (pad_idx example_model)), stl (stl example_rng))"
    using sampled [THEN conjunct2, THEN conjunct2] keys draws words by simp
  have four: "M2TransformerModel_prepare_decoder_input example_model ?e example_output
      example_rng =
      (Inr (m2_input [[[1 / 2]], [[1 / 4]]] [[True], [False]] [[1, 5, 6], [1, 7, 8]]),
       example_rng)"
    using m2_inference [THEN conjunct2, THEN conjunct2] keys words by simp
  have five: "TransformerModel_prepare_decoder_input example_model ?f example_output
      example_rng =
      (Inr (primary_input [[[1 / 2]], [[1 / 4]]] [1, 1] [[1], [1]] (pad_idx example_model)),
       example_rng)"
    using first_step [THEN conjunct2, THEN conjunct2] keys words by simp
  from one two three four five show ?thesis
    by (simp add: primary_input_def example_forced_input_def example_sampled_input_def
          example_model_def eq_mask_def empty_decoder_input_def)
qed

text \<open>
  C4. \<^verbatim>\<open>M2TransformerModel.__init__\<close> raises for every encoder that is not of the
  \<^verbatim>\<open>M2TransformerEncoder\<close> family: the error is the \<^verbatim>\<open>AssertionError\<close> of the
  \<^verbatim>\<open>assert\<close>, raised inside the constructor, so no model object exists on which a
  forward or step call could be made. With an encoder of the family the encoder check
  passes, and construction succeeds when the base constructor accepts the decoder; every
  model the constructor returns has an encoder of the family.
\<close>

theorem M2_encoder_checked_at_construction:
  "(enc \<noteq> M2TransformerEncoder \<longrightarrow>
      M2TransformerModel_init attr enc dec kw = Inl AssertionError) \<and>
   (enc = M2TransformerEncoder \<and>
    isinstance (dec_class dec) (default_compat attr (Class M2TransformerDecoder)) \<longrightarrow>
      (\<exists>self. M2TransformerModel_init attr enc dec kw = Inr self \<and>
         encoder self = enc \<and> decoder self = dec)) \<and>
   (\<forall>self. M2TransformerModel_init attr enc dec kw = Inr self \<longrightarrow>
      encoder self = M2TransformerEncoder)"
  by (auto simp: M2TransformerModel_init_def CaptionModel_init_def check_encoder_compatibility_def
        and_then_Inr_iff split: if_splits)

text \<open>The theorem for a mismatched and for a matching encoder, with an M2 decoder.\<close>

theorem M2_encoder_check_witness:
  "M2TransformerModel_init None OtherEncoder example_m2_decoder example_kwargs = Inl AssertionError
   \<and> map_sum id encoder
        (M2TransformerModel_init None M2TransformerEncoder example_m2_decoder example_kwargs) =
       Inr M2TransformerEncoder"
proof -
  have c: "isinstance (dec_class example_m2_decoder)
      (default_compat None (Class M2TransformerDecoder))"
    by (simp add: example_m2_decoder_def default_compat_def)
  show ?thesis
    using M2_encoder_checked_at_construction
        [of OtherEncoder None example_m2_decoder example_kwargs]
      M2_encoder_checked_at_construction
        [of M2TransformerEncoder None example_m2_decoder example_kwargs] c
    by auto
qed

text \<open>
  C5 fails on the code for two of the four variants. A freshly constructed primary or
  keyword-conditioned model holds a one-element tuple, written \<^verbatim>\<open>(C,)\<close>; the M2 and the
  event-conditioned constructor write \<^verbatim>\<open>(C)\<close> without the comma, and the attribute is
  the bare class, not a tuple.
\<close>

theorem default_compatible_decoders_not_all_tuples:
  "map_sum id compatible_decoders
     (TransformerModel_init None enc (dec\<lparr>dec_class := TransformerDecoder\<rparr>) kw) =
     Inr (Tuple [TransformerDecoder]) \<and>
   map_sum id compatible_decoders
     (KeywordCondTransformerModel_init None enc
        (dec\<lparr>dec_class := KeywordProbTransformerDecoder\<rparr>) kw) =
     Inr (Tuple [KeywordProbTransformerDecoder]) \<and>
   map_sum id compatible_decoders
     (M2TransformerModel_init None M2TransformerEncoder
        (dec\<lparr>dec_class := M2TransformerDecoder\<rparr>) kw) =
     Inr (Class M2TransformerDecoder) \<and>
   map_sum id compatible_decoders
     (EventCondTransformerModel_init randn None enc
        (dec\<lparr>dec_class := EventTransformerDecoder\<rparr>) kw) =
     Inr (Class EventTransformerDecoder) \<and>
   \<not> is_tuple (Class M2TransformerDecoder) \<and> \<not> is_tuple (Class EventTransformerDecoder) \<and>
   is_tuple (Tuple [TransformerDecoder]) \<and> is_tuple (Tuple [KeywordProbTransformerDecoder])"
  by (simp add: TransformerModel_init_def KeywordCondTransformerModel_init_def
        M2TransformerModel_init_def EventCondTransformerModel_init_def CaptionModel_init_def
        check_encoder_compatibility_def default_compat_def is_tuple_def)

text \<open>
  C6. For a batch with captions, attention embeddings and the variant's other keys,
  \<^verbatim>\<open>seq_forward\<close> of the primary variant (inherited by the event-conditioned one), of the
  M2 variant and of the keyword-conditioned variant adds exactly one entry to the log of
  decoder invocations, whose word tensor is \<^verbatim>\<open>caps[:, :-1]\<close>, and returns what the decoder
  returns for that entry. When all captions have length \<open>n\<close> the rows of the word tensor
  have length \<open>n - 1\<close>.
\<close>

theorem seq_forward_calls_decoder_once:
  assumes caps: "in_caps d = Some caps" and embs: "in_attn_embs d = Some embs"
  shows
    "(\<forall>lens. in_attn_emb_lens d = Some lens \<longrightarrow>
        (\<exists>di. TransformerModel_seq_forward self d calls = (forward (decoder self) di, calls @ [di]) \<and>
              dec_word di = Some (map butlast caps))) \<and>
     (\<forall>msk. in_attn_emb_mask d = Some msk \<longrightarrow>
        (\<exists>di. M2TransformerModel_seq_forward self d calls = (forward (decoder self) di, calls @ [di]) \<and>
              dec_word di = Some (map butlast caps))) \<and>
     (\<forall>lens kw. in_attn_emb_lens d = Some lens \<and> in_keywords d = Some kw \<longrightarrow>
        (\<exists>di. KeywordCondTransformerModel_seq_forward self d calls =
                (forward (decoder self) di, calls @ [di]) \<and>
              dec_word di = Some (map butlast caps))) \<and>
     (\<forall>n. (\<forall>row\<in>set caps. length row = n) \<longrightarrow>
        (\<forall>row\<in>set (map butlast caps). length row = n - 1))"
proof (intro conjI allI impI)
  fix lens
  assume "in_attn_emb_lens d = Some lens"
  then show "\<exists>di. TransformerModel_seq_forward self d calls =
      (forward (decoder self) di, calls @ [di]) \<and> dec_word di = Some (map butlast caps)"
    by (simp add: TransformerModel_seq_forward_def call_decoder_def empty_decoder_input_def
          Transformer_seq_forward_input_eq [OF caps embs])
next
  fix msk
  assume "in_attn_emb_mask d = Some msk"
  then show "\<exists>di. M2TransformerModel_seq_forward self d calls =
      (forward (decoder self) di, calls @ [di]) \<and> dec_word di = Some (map butlast caps)"
    by (simp add: M2TransformerModel_seq_forward_def call_decoder_def empty_decoder_input_def
          M2_seq_forward_input_eq [OF caps embs])
next
  fix lens kw
  assume "in_attn_emb_lens d = Some lens \<and> in_keywords d = Some kw"
  then show "\<exists>di. KeywordCondTransformerModel_seq_forward self d calls =
      (forward (decoder self) di, calls @ [di]) \<and> dec_word di = Some (map butlast caps)"
    by (simp add: KeywordCondTransformerModel_seq_forward_def call_decoder_def
          empty_decoder_input_def Keyword_seq_forward_input_eq [OF caps embs])
next
  fix n
  assume "\<forall>row\<in>set caps. length row = n"
  then show "\<forall>row\<in>set (map butlast caps). length row = n - 1"
    by auto
qed

text \<open>The theorem on the concrete batch: captions of length 5, a word tensor of width 4.\<close>

theorem seq_forward_witness:
  "TransformerModel_seq_forward example_model example_input [] = (Inr 2, [example_seq_input])
   \<and> dec_word example_seq_input = Some (map butlast [[1, 5, 6, 2, 0], [1, 7, 2, 0, 0]])
   \<and> map length (map butlast [[1, 5, 6, 2, 0], [1, 7, 2, 0, 0 :: int]]) = [5 - 1, 5 - 1]"
proof -
  have caps: "in_caps example_input = Some [[1, 5, 6, 2, 0], [1, 7, 2, 0, 0]]"
    and embs: "in_attn_embs example_input = Some [[[1 / 2]], [[1 / 4]]]"
    by (simp_all add: example_input_def)
  have run: "TransformerModel_seq_forward example_model example_input [] =
      (Inr 2, [example_seq_input])"
    by (simp add: TransformerModel_seq_forward_def TransformerModel_seq_forward_input_def
          call_decoder_def example_seq_input_def batch_eval)
  from seq_forward_calls_decoder_once [OF caps embs, of example_model "[]"] run
  show ?thesis
    by (simp add: example_seq_input_def)
qed

text \<open>
  C7. Every decoder input the primary variant and its event- and keyword-conditioned
  subclasses produce carries a padding mask that is the comparison of its word tensor
  with \<open>pad_idx\<close>: the mask has the shape of the word tensor and is true exactly where the
  word is \<open>pad_idx\<close>. This holds of the dictionary \<^verbatim>\<open>seq_forward\<close> builds, of every record
  it hands to the decoder, and of every result of \<^verbatim>\<open>prepare_decoder_input\<close> and of
  \<^verbatim>\<open>prepare_beamsearch_decoder_input\<close>. And the records are produced: with its keys
  present \<^verbatim>\<open>seq_forward\<close> calls the decoder on the record with that mask, and the
  step-wise preparation returns the record with that mask for the word tensor its
  decision rule gives.
\<close>

theorem padding_mask_marks_pad_positions:
  "(TransformerModel_seq_forward_input self d = Inr di \<longrightarrow> mask_marks_pad (pad_idx self) di) \<and>
   (KeywordCondTransformerModel_seq_forward_input self d = Inr di \<longrightarrow>
      mask_marks_pad (pad_idx self) di) \<and>
   (fst (TransformerModel_prepare_decoder_input self d out rng) = Inr di \<longrightarrow>
      mask_marks_pad (pad_idx self) di) \<and>
   (fst (EventCondTransformerModel_prepare_decoder_input torch eself d out rng) = Inr di \<longrightarrow>
      mask_marks_pad (pad_idx eself) di) \<and>
   (fst (KeywordCondTransformerModel_prepare_decoder_input self d out rng) = Inr di \<longrightarrow>
      mask_marks_pad (pad_idx self) di) \<and>
   (fst (TransformerModel_prepare_beamsearch_decoder_input self d out) = Inr di \<longrightarrow>
      mask_marks_pad (pad_idx self) di) \<and>
   (fst (EventCondTransformerModel_prepare_beamsearch_decoder_input torch eself d out) = Inr di \<longrightarrow>
      mask_marks_pad (pad_idx eself) di) \<and>
   (fst (KeywordCondTransformerModel_prepare_beamsearch_decoder_input self d out) = Inr di \<longrightarrow>
      mask_marks_pad (pad_idx self) di) \<and>
   (\<forall>word pad. map length (eq_mask word pad) = map length word \<and>
      (\<forall>i j. i < length word \<and> j < length (word ! i) \<longrightarrow>
         eq_mask word pad ! i ! j = (word ! i ! j = pad))) \<and>
   (snd (TransformerModel_seq_forward self d calls) = calls @ [di] \<longrightarrow>
      mask_marks_pad (pad_idx self) di) \<and>
   (snd (KeywordCondTransformerModel_seq_forward self d calls) = calls @ [di] \<longrightarrow>
      mask_marks_pad (pad_idx self) di) \<and>
   (in_caps d = Some caps \<and> in_attn_embs d = Some embs \<and> in_attn_emb_lens d = Some lens \<longrightarrow>
      mask_marks_pad (pad_idx self) (primary_input embs lens (map butlast caps) (pad_idx self)) \<and>
      TransformerModel_seq_forward self d calls =
        (forward (decoder self) (primary_input embs lens (map butlast caps) (pad_idx self)),
         calls @ [primary_input embs lens (map butlast caps) (pad_idx self)]) \<and>
      (\<forall>kw. in_keywords d = Some kw \<longrightarrow>
         KeywordCondTransformerModel_seq_forward self d calls =
           (forward (decoder self)
              ((primary_input embs lens (map butlast caps) (pad_idx self))
                 \<lparr>dec_keywords := Some kw\<rparr>),
            calls @ [(primary_input embs lens (map butlast caps) (pad_idx self))
                       \<lparr>dec_keywords := Some kw\<rparr>]))) \<and>
   (in_attn_embs d = Some embs \<and> in_attn_emb_lens d = Some lens \<and> in_t d = Some t \<and>
    determine_input_word self d out t rng = (Inr word, rng') \<longrightarrow>
      TransformerModel_prepare_decoder_input self d out rng =
        (Inr (primary_input embs lens word (pad_idx self)), rng') \<and>
      (\<forall>kw. in_keywords d = Some kw \<longrightarrow>
         KeywordCondTransformerModel_prepare_decoder_input self d out rng =
           (Inr ((primary_input embs lens word (pad_idx self))\<lparr>dec_keywords := Some kw\<rparr>),
            rng'))) \<and>
   (in_attn_embs d = Some embs \<and> in_attn_emb_lens d = Some lens \<and> in_t d = Some t \<and>
    determine_input_word eself d out t rng = (Inr word, rng') \<and> in_events d = Some ev \<and>
    EventEncoder_forward torch (label_encoder eself) ev = Inr emb \<longrightarrow>
      EventCondTransformerModel_prepare_decoder_input torch eself d out rng =
        (Inr ((primary_input embs lens word (pad_idx eself))\<lparr>dec_events := Some emb\<rparr>), rng'))"
  by (intro conjI impI allI; (elim conjE)?)
    (simp_all add: Transformer_seq_input_mask Keyword_seq_input_mask Transformer_step_mask
      Event_step_mask Keyword_step_mask Transformer_beam_mask Event_beam_mask Keyword_beam_mask
      eq_mask_entry eq_mask_shape Transformer_seq_forward_logged Keyword_seq_forward_logged
      Transformer_seq_forward_returns Keyword_seq_forward_returns Transformer_step_returns
      Event_step_returns Keyword_step_returns)

text \<open>
  The theorem on the concrete batch, whose one pad token is at the end of the second
  caption: \<^verbatim>\<open>seq_forward\<close> of the primary and of the keyword-conditioned variant.
\<close>

theorem padding_mask_witness:
  "TransformerModel_seq_forward example_model example_input [] = (Inr 2, [example_seq_input])
   \<and> KeywordCondTransformerModel_seq_forward example_model example_input [] =
       (Inr 2, [example_seq_input\<lparr>dec_keywords := Some [[1 / 2, 1 / 2], [1, 0]]\<rparr>])
   \<and> mask_marks_pad 0 example_seq_input
   \<and> dec_caps_padding_mask example_seq_input =
       Some [[False, False, False, False], [False, False, False, True]]"
proof -
  have keys: "in_caps example_input = Some [[1, 5, 6, 2, 0], [1, 7, 2, 0, 0]]"
    "in_attn_embs example_input = Some [[[1 / 2]], [[1 / 4]]]"
    "in_attn_emb_lens example_input = Some [1, 1]"
    "in_keywords example_input = Some [[1 / 2, 1 / 2], [1, 0]]"
    by (simp_all add: example_input_def)
  have built: "primary_input [[[1 / 2]], [[1 / 4]]] [1, 1]
      (map butlast [[1, 5, 6, 2, 0], [1, 7, 2, 0, 0]]) (pad_idx example_model) = example_seq_input"
    by (simp add: primary_input_def example_seq_input_def example_model_def eq_mask_def
          empty_decoder_input_def)
  have answers: "forward (decoder example_model) example_seq_input = Inr 2"
    "forward (decoder example_model)
       (example_seq_input\<lparr>dec_keywords := Some [[1 / 2, 1 / 2], [1, 0]]\<rparr>) = Inr 2"
    "pad_idx example_model = 0"
    by (simp_all add: example_model_def example_decoder_def example_seq_input_def)
  note all = padding_mask_marks_pad_positions
    [where self = example_model and d = example_input and calls = "[]"
      and caps = "[[1, 5, 6, 2, 0], [1, 7, 2, 0, 0]]" and embs = "[[[1 / 2]], [[1 / 4]]]"
      and lens = "[1, 1]" and torch = example_torch and eself = example_event_model
      and out = empty_output and rng = example_rng and di = example_seq_input]
  note logged = all
    [THEN conjunct2, THEN conjunct2, THEN conjunct2, THEN conjunct2, THEN conjunct2,
      THEN conjunct2, THEN conjunct2, THEN conjunct2, THEN conjunct2, THEN conjunct1]
  note produced = all
    [THEN conjunct2, THEN conjunct2, THEN conjunct2, THEN conjunct2, THEN conjunct2,
      THEN conjunct2, THEN conjunct2, THEN conjunct2, THEN conjunct2, THEN conjunct2,
      THEN conjunct2, THEN conjunct1]
  have runs: "TransformerModel_seq_forward example_model example_input [] =
      (Inr 2, [example_seq_input])"
    "KeywordCondTransformerModel_seq_forward example_model example_input [] =
      (Inr 2, [example_seq_input\<lparr>dec_keywords := Some [[1 / 2, 1 / 2], [1, 0]]\<rparr>])"
    using produced keys built answers by simp_all
  have "mask_marks_pad 0 example_seq_input"
    using logged runs(1) answers(3) by simp
  with runs show ?thesis
    by (simp add: example_seq_input_def)
qed

text \<open>
  C8. Two step contexts that agree on every key except \<^verbatim>\<open>caps\<close>, in a mode other than
  \<^verbatim>\<open>"train"\<close> (or with no mode at all), give the same result in all four variants:
  the same decoder input or the same error, and the same generator.
\<close>

theorem inference_never_reads_caps:
  assumes agree: "d1\<lparr>in_caps := None\<rparr> = d2\<lparr>in_caps := None\<rparr>"
    and mode: "in_mode d1 \<noteq> Some ''train''"
  shows "TransformerModel_prepare_decoder_input self d1 out rng =
         TransformerModel_prepare_decoder_input self d2 out rng \<and>
     M2TransformerModel_prepare_decoder_input self d1 out rng =
         M2TransformerModel_prepare_decoder_input self d2 out rng \<and>
     EventCondTransformerModel_prepare_decoder_input torch eself d1 out rng =
         EventCondTransformerModel_prepare_decoder_input torch eself d2 out rng \<and>
     KeywordCondTransformerModel_prepare_decoder_input self d1 out rng =
         KeywordCondTransformerModel_prepare_decoder_input self d2 out rng"
proof -
  have "in_mode (d1\<lparr>in_caps := None\<rparr>) = in_mode (d2\<lparr>in_caps := None\<rparr>)"
    using agree by simp
  with mode have mode2: "in_mode d2 \<noteq> Some ''train''"
    by simp
  have "TransformerModel_prepare_decoder_input self d1 out rng =
      TransformerModel_prepare_decoder_input self (d1\<lparr>in_caps := None\<rparr>) out rng"
    by (simp add: Transformer_step_no_caps [OF mode])
  also have "\<dots> = TransformerModel_prepare_decoder_input self (d2\<lparr>in_caps := None\<rparr>) out rng"
    by (simp add: agree)
  also have "\<dots> = TransformerModel_prepare_decoder_input self d2 out rng"
    by (simp add: Transformer_step_no_caps [OF mode2])
  finally have Transformer: "TransformerModel_prepare_decoder_input self d1 out rng =
      TransformerModel_prepare_decoder_input self d2 out rng" .
  have "M2TransformerModel_prepare_decoder_input self d1 out rng =
      M2TransformerModel_prepare_decoder_input self (d1\<lparr>in_caps := None\<rparr>) out rng"
    by (simp add: M2_step_no_caps [OF mode])
  also have "\<dots> = M2TransformerModel_prepare_decoder_input self (d2\<lparr>in_caps := None\<rparr>) out rng"
    by (simp add: agree)
  also have "\<dots> = M2TransformerModel_prepare_decoder_input self d2 out rng"
    by (simp add: M2_step_no_caps [OF mode2])
  finally have M2: "M2TransformerModel_prepare_decoder_input self d1 out rng =
      M2TransformerModel_prepare_decoder_input self d2 out rng" .
  have "EventCondTransformerModel_prepare_decoder_input torch eself d1 out rng =
      EventCondTransformerModel_prepare_decoder_input torch eself (d1\<lparr>in_caps := None\<rparr>) out rng"
    by (simp add: Event_step_no_caps [OF mode])
  also have "\<dots> = EventCondTransformerModel_prepare_decoder_input torch eself (d2\<lparr>in_caps := None\<rparr>) out rng"
    by (simp add: agree)
  also have "\<dots> = EventCondTransformerModel_prepare_decoder_input torch eself d2 out rng"
    by (simp add: Event_step_no_caps [OF mode2])
  finally have Event: "EventCondTransformerModel_prepare_decoder_input torch eself d1 out rng =
      EventCondTransformerModel_prepare_decoder_input torch eself d2 out rng" .
  have "KeywordCondTransformerModel_prepare_decoder_input self d1 out rng =
      KeywordCondTransformerModel_prepare_decoder_input self (d1\<lparr>in_caps := None\<rparr>) out rng"
    by (simp add: Keyword_step_no_caps [OF mode])
  also have "\<dots> = KeywordCondTransformerModel_prepare_decoder_input self (d2\<lparr>in_caps := None\<rparr>) out rng"
    by (simp add: agree)
  also have "\<dots> = KeywordCondTransformerModel_prepare_decoder_input self d2 out rng"
    by (simp add: Keyword_step_no_caps [OF mode2])
  finally have Keyword: "KeywordCondTransformerModel_prepare_decoder_input self d1 out rng =
      KeywordCondTransformerModel_prepare_decoder_input self d2 out rng" .
  from Transformer M2 Event Keyword show ?thesis
    by simp
qed

text \<open>The theorem in mode \<^verbatim>\<open>"inference"\<close> for two different caption tensors.\<close>

theorem inference_caps_witness:
  "TransformerModel_prepare_decoder_input example_model
     (example_input\<lparr>in_mode := Some ''inference''\<rparr>) example_output example_rng =
   TransformerModel_prepare_decoder_input example_model
     (example_input\<lparr>in_mode := Some ''inference'', in_caps := Some [[1, 9, 9, 9, 2], [1, 9, 2, 0, 0]]\<rparr>)
     example_output example_rng"
proof -
  have agree: "(example_input\<lparr>in_mode := Some ''inference''\<rparr>)\<lparr>in_caps := None\<rparr> =
      (example_input\<lparr>in_mode := Some ''inference'',
         in_caps := Some [[1, 9, 9, 9, 2], [1, 9, 2, 0, 0]]\<rparr>)\<lparr>in_caps := None\<rparr>"
    by simp
  have mode: "in_mode (example_input\<lparr>in_mode := Some ''inference''\<rparr>) \<noteq> Some ''train''"
    by simp
  from inference_never_reads_caps [OF agree mode, where self = example_model
      and out = example_output and rng = example_rng and torch = example_torch
      and eself = example_event_model]
  show ?thesis
    by simp
qed

text \<open>
  C10. At \<open>t \<noteq> 0\<close> the beam-search step of the primary and of the M2 variant reads
  \<^verbatim>\<open>attn_embs\<close>, then \<^verbatim>\<open>attn_emb_lens\<close> (\<^verbatim>\<open>attn_emb_mask\<close> for M2), then \<^verbatim>\<open>seqs\<close> from
  the beam state. With the three keys present (and, for the primary variant, \<^verbatim>\<open>attn_embs\<close>
  in the step context, which line 83 reads) the step raises no \<^verbatim>\<open>KeyError\<close>, and it
  returns a record exactly when \<open>seqs\<close> has one row per beam. With one of them absent
  it raises the \<^verbatim>\<open>KeyError\<close> of the first absent key and returns no record. The beam
  state is left as it was in every case.
\<close>

theorem later_beam_steps_need_cached_keys:
  assumes t: "in_t d = Some t" and later: "t \<noteq> 0"
    and i: "in_sample_idx d = Some i" and b: "in_beam_size d = Some b"
  shows
    "(out_attn_embs out \<noteq> None \<and> out_attn_emb_lens out \<noteq> None \<and> out_seqs out \<noteq> None \<and>
      in_attn_embs d \<noteq> None \<longrightarrow>
        (\<forall>k. fst (TransformerModel_prepare_beamsearch_decoder_input self d out) \<noteq> Inl (KeyError k)) \<and>
        ((\<exists>di. fst (TransformerModel_prepare_beamsearch_decoder_input self d out) = Inr di) \<longleftrightarrow>
           (\<exists>seqs. out_seqs out = Some seqs \<and> length seqs = nat b))) \<and>
     (out_attn_embs out = None \<longrightarrow>
        fst (TransformerModel_prepare_beamsearch_decoder_input self d out) =
          Inl (KeyError ''attn_embs'')) \<and>
     (out_attn_embs out \<noteq> None \<and> out_attn_emb_lens out = None \<longrightarrow>
        fst (TransformerModel_prepare_beamsearch_decoder_input self d out) =
          Inl (KeyError ''attn_emb_lens'')) \<and>
     (out_attn_embs out \<noteq> None \<and> out_attn_emb_lens out \<noteq> None \<and> out_seqs out = None \<longrightarrow>
        fst (TransformerModel_prepare_beamsearch_decoder_input self d out) =
          Inl (KeyError ''seqs'')) \<and>
     (out_attn_embs out \<noteq> None \<and> out_attn_emb_mask out \<noteq> None \<and> out_seqs out \<noteq> None \<longrightarrow>
        (\<forall>k. fst (M2TransformerModel_prepare_beamsearch_decoder_input self d out) \<noteq> Inl (KeyError k)) \<and>
        ((\<exists>di. fst (M2TransformerModel_prepare_beamsearch_decoder_input self d out) = Inr di) \<longleftrightarrow>
           (\<exists>seqs. out_seqs out = Some seqs \<and> length seqs = nat b))) \<and>
     (out_attn_embs out = None \<longrightarrow>
        fst (M2TransformerModel_prepare_beamsearch_decoder_input self d out) =
          Inl (KeyError ''attn_embs'')) \<and>
     (out_attn_embs out \<noteq> None \<and> out_attn_emb_mask out = None \<longrightarrow>
        fst (M2TransformerModel_prepare_beamsearch_decoder_input self d out) =
          Inl (KeyError ''attn_emb_mask'')) \<and>
     (out_attn_embs out \<noteq> None \<and> out_attn_emb_mask out \<noteq> None \<and> out_seqs out = None \<longrightarrow>
        fst (M2TransformerModel_prepare_beamsearch_decoder_input self d out) =
          Inl (KeyError ''seqs'')) \<and>
     snd (TransformerModel_prepare_beamsearch_decoder_input self d out) = out \<and>
     snd (M2TransformerModel_prepare_beamsearch_decoder_input self d out) = out"
proof -
  have c: "step_context d = Inr (t, i, b)"
    using t i b by (rule step_context_Some)
  have s: "in_t d \<noteq> Some 0"
    using t later by simp
  show ?thesis
  proof (cases "out_attn_embs out")
    case None
    then show ?thesis
      by (simp add: Transformer_beam_later [OF c later] M2_beam_later [OF c later]
            Transformer_beam_state_later [OF s] M2_beam_state_later [OF s])
  next
    case embs: (Some a)
    show ?thesis
    proof (cases "out_seqs out")
      case None
      with embs show ?thesis
        by (simp add: Transformer_beam_later [OF c later] M2_beam_later [OF c later]
              Transformer_beam_state_later [OF s] M2_beam_state_later [OF s]
              split: option.splits)
    next
      case (Some seqs)
      with embs show ?thesis
        by (simp add: Transformer_beam_later [OF c later] M2_beam_later [OF c later]
              Transformer_beam_state_later [OF s] M2_beam_state_later [OF s]
              split: option.splits)
    qed
  qed
qed

text \<open>
  The theorem at \<open>t = 1\<close> on the concrete batch: with the cache of the first step and
  with an empty beam state.
\<close>

theorem cached_keys_witness:
  "fst (TransformerModel_prepare_beamsearch_decoder_input example_model
        (example_input\<lparr>in_t := Some 1\<rparr>) example_beam_state) = Inr example_beam_input
   \<and> fst (TransformerModel_prepare_beamsearch_decoder_input example_model
        (example_input\<lparr>in_t := Some 1\<rparr>) empty_output) = Inl (KeyError ''attn_embs'')
   \<and> snd (TransformerModel_prepare_beamsearch_decoder_input example_model
        (example_input\<lparr>in_t := Some 1\<rparr>) empty_output) = empty_output"
proof -
  let ?d = "example_input\<lparr>in_t := Some 1\<rparr>"
  have t: "in_t ?d = Some 1" and later: "(1 :: int) \<noteq> 0"
    and i: "in_sample_idx ?d = Some 1" and b: "in_beam_size ?d = Some 2"
    by (simp_all add: example_input_def)
  have missing: "out_attn_embs empty_output = None"
    by (simp add: empty_output_def)
  have run: "fst (TransformerModel_prepare_beamsearch_decoder_input example_model ?d
      example_beam_state) = Inr example_beam_input"
    by (simp add: TransformerModel_prepare_beamsearch_decoder_input_def batch_eval)
  from later_beam_steps_need_cached_keys [OF t later i b, of empty_output example_model] missing
  have "fst (TransformerModel_prepare_beamsearch_decoder_input example_model ?d empty_output) =
      Inl (KeyError ''attn_embs'')"
    and "snd (TransformerModel_prepare_beamsearch_decoder_input example_model ?d empty_output) =
      empty_output"
    by blast+
  with run show ?thesis
    by simp
qed

end
